theory Spec2Isabelle
  imports Complex_Main
begin

section \<open>Platform values shared by the modules\<close>

text \<open>
  Exceptions of the JavaScript platform that the modelled code can meet, each with its
  message: a rejected \<^verbatim>\<open>fetch\<close>, a failing \<^verbatim>\<open>JSON.parse\<close> or \<^verbatim>\<open>response.json()\<close>,
  destructuring \<^verbatim>\<open>null\<close>, a full session storage, and \<^verbatim>\<open>throw new Error(msg)\<close> of the
  code itself. All of them are instances of \<^verbatim>\<open>Error\<close>.
\<close>

datatype exn =
  NetworkError string
| SyntaxError string
| TypeError string
| QuotaExceededError string
| Error string

fun message :: "exn \<Rightarrow> string" where
  "message (NetworkError m) = m"
| "message (SyntaxError m) = m"
| "message (TypeError m) = m"
| "message (QuotaExceededError m) = m"
| "message (Error m) = m"

text \<open>
  The values of JSON. A number is a real here: the rounding and the special values of
  the platform's floating point numbers are outside the model. An object is its list of
  properties, read with \<open>map_of\<close>.
\<close>

datatype json =
  JNull
| JBool bool
| JNum real
| JStr string
| JArr "json list"
| JObj "(string \<times> json) list"

text \<open>
  A string that the JSON functions write or read (a stored item, a request or response
  body). For a JSON text the model keeps the value the text stands for, so that
  \<^verbatim>\<open>JSON.parse(JSON.stringify(v))\<close> is \<open>v\<close>; any other string is kept as it is, and parsing
  it throws.
\<close>

datatype jstring = Plain string | JsonText json

definition JSON_stringify :: "json \<Rightarrow> jstring" where
  "JSON_stringify v = JsonText v"

fun JSON_parse :: "jstring \<Rightarrow> exn + json" where
  "JSON_parse (JsonText v) = Inr v"
| "JSON_parse (Plain s) = Inl (SyntaxError ''Unexpected token'')"

text \<open>\<^verbatim>\<open>!s\<close> for a string: only the empty string is falsy, and it is not a JSON text.\<close>

fun falsy_string :: "jstring \<Rightarrow> bool" where
  "falsy_string (Plain s) = (s = [])"
| "falsy_string (JsonText v) = False"

text \<open>\<^verbatim>\<open>s.startsWith(t)\<close> and \<^verbatim>\<open>s.includes(t)\<close> on strings.\<close>

fun startsWith :: "string \<Rightarrow> string \<Rightarrow> bool" where
  "startsWith s [] = True"
| "startsWith [] (c # cs) = False"
| "startsWith (x # xs) (c # cs) = (x = c \<and> startsWith xs cs)"

fun includes_str :: "string \<Rightarrow> string \<Rightarrow> bool" where
  "includes_str [] t = (t = [])"
| "includes_str (x # xs) t = (startsWith (x # xs) t \<or> includes_str xs t)"

text \<open>
  \<^verbatim>\<open>s.trim()\<close> removes white space and line terminators from both ends. With one-byte
  characters these are tab, line feed, vertical tab, form feed, carriage return, space
  and the no-break space.
\<close>

definition white_space :: "char \<Rightarrow> bool" where
  "white_space c \<longleftrightarrow>
     c \<in> set [CHR 0x09, CHR 0x0A, CHR 0x0B, CHR 0x0C, CHR 0x0D, CHR 0x20, CHR 0xA0]"

definition trim :: "string \<Rightarrow> string" where
  "trim s = rev (dropWhile white_space (rev (dropWhile white_space s)))"

section \<open>The session-aware fetch wrapper (lib/api)\<close>

text \<open>
  \<^verbatim>\<open>type ApiFetchOptions = RequestInit & { skipAuthRefresh?: boolean }\<close>.
  An optional property is an \<open>option\<close>: \<open>None\<close> is a property that is not set.
\<close>

record RequestInit =
  http_method :: "string option"
  headers :: "(string \<times> string) list"
  body :: "jstring option"
  credentials :: "string option"

record ApiFetchOptions = RequestInit +
  skipAuthRefresh :: "bool option"

text \<open>
  What the code reads of a \<^verbatim>\<open>Response\<close>: its status, its status text, its \<^verbatim>\<open>ok\<close> flag,
  and its body.
\<close>

record 'b Response =
  status :: int
  statusText :: string
  ok :: bool
  resp_body :: 'b

text \<open>One call of the platform's \<^verbatim>\<open>fetch(url, init)\<close>.\<close>

record fetch_call =
  call_url :: string
  call_init :: RequestInit

text \<open>
  The network is a state machine outside the program: a call is answered with a response
  or rejected, and the server may answer the same call differently the next time.
\<close>

type_synonym ('s, 'b) network = "'s \<Rightarrow> fetch_call \<Rightarrow> (exn + 'b Response) \<times> 's"

text \<open>\<^verbatim>\<open>options = {}\<close>, the default of the second parameter of \<^verbatim>\<open>apiFetch\<close>.\<close>

definition noOptions :: ApiFetchOptions where
  "noOptions = \<lparr>http_method = None, headers = [], body = None, credentials = None,
     skipAuthRefresh = None\<rparr>"

text \<open>The constant \<^verbatim>\<open>baseUrl\<close> comes from the environment and is a parameter here.\<close>

definition buildUrl :: "string \<Rightarrow> string \<Rightarrow> string" where
  "buildUrl baseUrl pathOrUrl =
     (if startsWith pathOrUrl ''http://'' \<or> startsWith pathOrUrl ''https://''
      then pathOrUrl
      else baseUrl @ pathOrUrl)"

definition shouldSkipRefresh :: "string \<Rightarrow> ApiFetchOptions \<Rightarrow> bool" where
  "shouldSkipRefresh url options =
     (if skipAuthRefresh options = Some True then True
      else if includes_str url ''/auth/login'' then True
      else if includes_str url ''/auth/refresh'' then True
      else False)"

text \<open>
  \<^verbatim>\<open>{ credentials: "include", ...options }\<close>: the spread keeps every property of the
  options and lets a \<^verbatim>\<open>credentials\<close> property of theirs replace the default.
\<close>

definition withCredentials :: "ApiFetchOptions \<Rightarrow> RequestInit" where
  "withCredentials options =
     \<lparr>http_method = http_method options, headers = headers options, body = body options,
      credentials = (case credentials options of None \<Rightarrow> Some ''include'' | Some c \<Rightarrow> Some c)\<rparr>"

definition originalCall :: "string \<Rightarrow> string \<Rightarrow> ApiFetchOptions \<Rightarrow> fetch_call" where
  "originalCall baseUrl pathOrUrl options =
     \<lparr>call_url = buildUrl baseUrl pathOrUrl, call_init = withCredentials options\<rparr>"

definition refreshCall :: "string \<Rightarrow> fetch_call" where
  "refreshCall baseUrl =
     \<lparr>call_url = buildUrl baseUrl ''/auth/refresh'',
      call_init = \<lparr>http_method = Some ''POST'', headers = [], body = None,
        credentials = Some ''include''\<rparr>\<rparr>"

text \<open>
  \<^verbatim>\<open>apiFetch\<close> returns what the caller gets (a response, or the exception of a rejected
  \<^verbatim>\<open>fetch\<close>, which the function does not catch), the calls it made in order, and the
  state of the network afterwards.
\<close>

definition apiFetch ::
  "string \<Rightarrow> ('s, 'b) network \<Rightarrow> string \<Rightarrow> ApiFetchOptions \<Rightarrow> 's
     \<Rightarrow> (exn + 'b Response) \<times> fetch_call list \<times> 's" where
  "apiFetch baseUrl net pathOrUrl options s =
     (let url = buildUrl baseUrl pathOrUrl;
          call = \<lparr>call_url = url, call_init = withCredentials options\<rparr>
      in case net s call of
           (Inl e, s1) \<Rightarrow> (Inl e, [call], s1)
         | (Inr response, s1) \<Rightarrow>
             if status response \<noteq> 401 \<or> shouldSkipRefresh url options
             then (Inr response, [call], s1)
             else (case net s1 (refreshCall baseUrl) of
                 (Inl e, s2) \<Rightarrow> (Inl e, [call, refreshCall baseUrl], s2)
               | (Inr refresh, s2) \<Rightarrow>
                   if \<not> ok refresh then (Inr response, [call, refreshCall baseUrl], s2)
                   else (case net s2 call of
                       (r, s3) \<Rightarrow> (r, [call, refreshCall baseUrl, call], s3))))"

text \<open>
  A network that answers from a script, one outcome per call, and rejects every call once
  the script is used up. It gives the concrete runs below a server to talk to.
\<close>

fun scripted :: "((exn + 'b Response) list, 'b) network" where
  "scripted [] call = (Inl (NetworkError ''Failed to fetch''), [])"
| "scripted (r # rs) call = (r, rs)"

section \<open>The route middleware\<close>

text \<open>
  What the middleware hands back: the response of the route (\<^verbatim>\<open>next()\<close>), or a redirect.
\<close>

datatype middleware_result = Next | Redirect string

text \<open>
  \<^verbatim>\<open>\w\<close> of a regular expression without the unicode flag: the ASCII letters, the
  digits and the underscore.
\<close>

definition word_char :: "char \<Rightarrow> bool" where
  "word_char c \<longleftrightarrow>
     c \<in> set ''abcdefghijklmnopqrstuvwxyzABCDEFGHIJKLMNOPQRSTUVWXYZ0123456789_''"

text \<open>
  \<^verbatim>\<open>const PUBLIC_FILE = /\.[\w]+$/\<close>. \<^verbatim>\<open>PUBLIC_FILE.test(s)\<close> tries the pattern at every
  position of \<open>s\<close>: a dot, then one or more word characters, then the end of the input.
\<close>

fun PUBLIC_FILE_at :: "string \<Rightarrow> bool" where
  "PUBLIC_FILE_at [] = False"
| "PUBLIC_FILE_at (c # w) = (c = CHR ''.'' \<and> w \<noteq> [] \<and> list_all word_char w)"

fun PUBLIC_FILE_test :: "string \<Rightarrow> bool" where
  "PUBLIC_FILE_test [] = False"
| "PUBLIC_FILE_test (c # cs) = (PUBLIC_FILE_at (c # cs) \<or> PUBLIC_FILE_test cs)"

text \<open>
  The cookie jar maps a cookie's name to its value; \<^verbatim>\<open>cookies.get(name)\<close> is undefined for
  a name that is not there, and \<^verbatim>\<open>Boolean\<close> of an undefined or empty value is false.
\<close>

definition onRequest :: "string \<Rightarrow> (string \<rightharpoonup> string) \<Rightarrow> middleware_result" where
  "onRequest pathname cookies =
     (if startsWith pathname ''/login'' \<or> startsWith pathname ''/auth''
         \<or> startsWith pathname ''/_astro'' \<or> PUBLIC_FILE_test pathname
      then Next
      else let isAuthed = (case cookies ''access_token'' of
                 None \<Rightarrow> False | Some v \<Rightarrow> v \<noteq> [])
           in if \<not> isAuthed then Redirect ''/login'' else Next)"

section \<open>The login form\<close>

text \<open>
  The state of a component that runs one request at a time; the login form adds its
  success flag, a data panel adds what it shows.
\<close>

record request_state =
  loading :: bool
  error :: "string option"

record LoginForm_state = request_state +
  success :: bool

text \<open>
  \<^verbatim>\<open>String(formData.get(name) || "").trim()\<close>. The form has two text inputs, so an entry
  is a string, or null when the field is missing.
\<close>

definition field_value :: "(string \<rightharpoonup> string) \<Rightarrow> string \<Rightarrow> string" where
  "field_value formData name = trim (case formData name of None \<Rightarrow> [] | Some v \<Rightarrow> v)"

definition loginOptions :: "string \<Rightarrow> string \<Rightarrow> ApiFetchOptions" where
  "loginOptions usuario clave =
     \<lparr>http_method = Some ''POST'',
      headers = [(''Content-Type'', ''application/json'')],
      body = Some (JSON_stringify
        (JObj [(''username'', JStr usuario), (''password'', JStr clave)])),
      credentials = None,
      skipAuthRefresh = Some True\<rparr>"

text \<open>
  \<^verbatim>\<open>handleSubmit\<close> run to its end: the state of the form afterwards, the network calls it
  made, the state of the network, and the page the browser is sent to (after 700 ms) on
  success.
\<close>

definition handleSubmit ::
  "string \<Rightarrow> ('s, 'b) network \<Rightarrow> (string \<rightharpoonup> string) \<Rightarrow> LoginForm_state \<Rightarrow> 's
     \<Rightarrow> LoginForm_state \<times> fetch_call list \<times> 's \<times> string option" where
  "handleSubmit baseUrl net formData st s =
     (let usuario = field_value formData ''usuario'';
          clave = field_value formData ''clave''
      in if usuario = [] \<or> clave = []
         then (st\<lparr>error := Some ''Ingresa usuario y clave para continuar.''\<rparr>, [], s, None)
         else
           let st1 = st\<lparr>error := None, success := False, loading := True\<rparr>
           in case apiFetch baseUrl net ''/auth/login'' (loginOptions usuario clave) s of
                (Inl err, calls, s1) \<Rightarrow>
                  (st1\<lparr>error := Some (message err), loading := False\<rparr>, calls, s1, None)
              | (Inr response, calls, s1) \<Rightarrow>
                  if \<not> ok response
                  then if status response = 401 \<or> status response = 400
                    then (st1\<lparr>error := Some ''Usuario o clave incorrectos.'',
                            loading := False\<rparr>, calls, s1, None)
                    else (st1\<lparr>error := Some ''No se pudo iniciar sesion. Intenta nuevamente.'',
                            loading := False\<rparr>, calls, s1, None)
                  else (st1\<lparr>success := True, loading := False\<rparr>, calls, s1,
                        Some ''/dashboard''))"

section \<open>The response caches in session storage\<close>

text \<open>
  \<^verbatim>\<open>sessionStorage\<close> maps a key to the string stored under it. \<^verbatim>\<open>setItem\<close> throws when the
  platform refuses the write (the quota is exceeded); whether it does is the platform's
  decision, given here by the predicate \<open>accepts\<close>.
\<close>

type_synonym Storage = "string \<rightharpoonup> jstring"

definition getItem :: "Storage \<Rightarrow> string \<Rightarrow> jstring option" where
  "getItem st k = st k"

definition removeItem :: "Storage \<Rightarrow> string \<Rightarrow> Storage" where
  "removeItem st k = st(k := None)"

definition setItem ::
  "(Storage \<Rightarrow> string \<Rightarrow> jstring \<Rightarrow> bool) \<Rightarrow> Storage \<Rightarrow> string \<Rightarrow> jstring \<Rightarrow> exn + Storage" where
  "setItem accepts st k v =
     (if accepts st k v then Inr (st(k \<mapsto> v))
      else Inl (QuotaExceededError ''The quota has been exceeded.''))"

text \<open>
  \<^verbatim>\<open>const { data, aggregates, timestamp } = v\<close>: reading properties of \<^verbatim>\<open>null\<close> throws; a
  property that an object does not have, and any of these properties of a number, a
  boolean, a string or an array, is undefined (\<open>None\<close>).
\<close>

fun getProp :: "json \<Rightarrow> string \<Rightarrow> exn + json option" where
  "getProp JNull name = Inl (TypeError ''Cannot destructure null'')"
| "getProp (JObj props) name = Inr (map_of props name)"
| "getProp v name = Inr None"

text \<open>\<^verbatim>\<open>x ?? null\<close>: an undefined or null value becomes null, any other value is kept.\<close>

fun orNull :: "json option \<Rightarrow> json" where
  "orNull None = JNull"
| "orNull (Some v) = v"

text \<open>
  The conversion of a value to a number by the subtraction \<^verbatim>\<open>now - timestamp\<close>: undefined
  gives NaN (\<open>None\<close>), null gives 0, a boolean 0 or 1, a number itself. The conversion of
  strings, arrays and objects is the platform's and is the parameter \<open>toNumber\<close>.
\<close>

fun ToNumber :: "(json \<Rightarrow> real option) \<Rightarrow> json option \<Rightarrow> real option" where
  "ToNumber toNumber None = None"
| "ToNumber toNumber (Some JNull) = Some 0"
| "ToNumber toNumber (Some (JBool b)) = Some (if b then 1 else 0)"
| "ToNumber toNumber (Some (JNum x)) = Some x"
| "ToNumber toNumber (Some v) = toNumber v"

text \<open>
  \<^verbatim>\<open>const CACHE_EXPIRY = 30 * 60 * 1000\<close>, declared with this value in each of the three
  modules that cache.
\<close>

definition CACHE_EXPIRY :: real where
  "CACHE_EXPIRY = 30 * 60 * 1000"

text \<open>\<^verbatim>\<open>now - timestamp > CACHE_EXPIRY\<close>; a comparison with NaN is false.\<close>

definition expired :: "(json \<Rightarrow> real option) \<Rightarrow> real \<Rightarrow> json option \<Rightarrow> bool" where
  "expired toNumber now timestamp =
     (case ToNumber toNumber timestamp of
        None \<Rightarrow> False
      | Some t \<Rightarrow> now - t > CACHE_EXPIRY)"

subsection \<open>The cache of the statistics panel\<close>

text \<open>
  \<^verbatim>\<open>type EstadisticoResponse = { data: EstadisticoRow[]; aggregates?: ... | null }\<close>, as the
  cache and the network see it: JSON values, the optional property an \<open>option\<close>.
\<close>

record EstadisticoResponse =
  data :: json
  aggregates :: "json option"

definition estadistico_CACHE_PREFIX :: string where
  "estadistico_CACHE_PREFIX = ''estadistico-cache-''"

text \<open>
  \<^verbatim>\<open>getCachedData\<close> returns the cached payload or null (\<open>None\<close>), and the storage, from
  which it may have removed the entry. \<open>now\<close> is \<^verbatim>\<open>Date.now()\<close>. Every exception inside
  the \<^verbatim>\<open>try\<close> ends in \<^verbatim>\<open>return null\<close>.
\<close>

definition estadistico_getCachedData ::
  "(json \<Rightarrow> real option) \<Rightarrow> real \<Rightarrow> Storage \<Rightarrow> string
     \<Rightarrow> EstadisticoResponse option \<times> Storage" where
  "estadistico_getCachedData toNumber now st key =
     (case getItem st (estadistico_CACHE_PREFIX @ key) of
        None \<Rightarrow> (None, st)
      | Some cached \<Rightarrow>
          if falsy_string cached then (None, st)
          else (case JSON_parse cached of
              Inl e \<Rightarrow> (None, st)
            | Inr parsed \<Rightarrow>
                (case (getProp parsed ''data'', getProp parsed ''aggregates'',
                       getProp parsed ''timestamp'') of
                   (Inr data', Inr aggregates', Inr timestamp) \<Rightarrow>
                     if expired toNumber now timestamp
                     then (None, removeItem st (estadistico_CACHE_PREFIX @ key))
                     else (case data' of
                         Some (JArr rows) \<Rightarrow>
                           (Some \<lparr>data = JArr rows, aggregates = Some (orNull aggregates')\<rparr>, st)
                       | _ \<Rightarrow> (None, st))
                 | _ \<Rightarrow> (None, st))))"

definition estadistico_setCachedData ::
  "(Storage \<Rightarrow> string \<Rightarrow> jstring \<Rightarrow> bool) \<Rightarrow> real \<Rightarrow> Storage \<Rightarrow> string
     \<Rightarrow> EstadisticoResponse \<Rightarrow> Storage" where
  "estadistico_setCachedData accepts now st key payload =
     (case setItem accepts st (estadistico_CACHE_PREFIX @ key)
             (JSON_stringify (JObj [(''data'', data payload),
                (''aggregates'', orNull (aggregates payload)),
                (''timestamp'', JNum now)])) of
        Inl e \<Rightarrow> st
      | Inr st' \<Rightarrow> st')"

subsection \<open>The cache of the booths panel\<close>

definition cabinas_CACHE_PREFIX :: string where
  "cabinas_CACHE_PREFIX = ''cabinas-cache-''"

definition cabinas_getCachedData ::
  "(json \<Rightarrow> real option) \<Rightarrow> real \<Rightarrow> Storage \<Rightarrow> string \<Rightarrow> json \<times> Storage" where
  "cabinas_getCachedData toNumber now st key =
     (case getItem st (cabinas_CACHE_PREFIX @ key) of
        None \<Rightarrow> (JNull, st)
      | Some cached \<Rightarrow>
          if falsy_string cached then (JNull, st)
          else (case JSON_parse cached of
              Inl e \<Rightarrow> (JNull, st)
            | Inr parsed \<Rightarrow>
                (case (getProp parsed ''aggregates'', getProp parsed ''timestamp'') of
                   (Inr aggregates', Inr timestamp) \<Rightarrow>
                     if expired toNumber now timestamp
                     then (JNull, removeItem st (cabinas_CACHE_PREFIX @ key))
                     else (orNull aggregates', st)
                 | _ \<Rightarrow> (JNull, st))))"

definition cabinas_setCachedData ::
  "(Storage \<Rightarrow> string \<Rightarrow> jstring \<Rightarrow> bool) \<Rightarrow> real \<Rightarrow> Storage \<Rightarrow> string \<Rightarrow> json
     \<Rightarrow> Storage" where
  "cabinas_setCachedData accepts now st key aggregates' =
     (case setItem accepts st (cabinas_CACHE_PREFIX @ key)
             (JSON_stringify (JObj [(''aggregates'', aggregates'), (''timestamp'', JNum now)])) of
        Inl e \<Rightarrow> st
      | Inr st' \<Rightarrow> st')"

subsection \<open>The cache of the time-of-day panel\<close>

definition temporal_CACHE_PREFIX :: string where
  "temporal_CACHE_PREFIX = ''temporal-cache-''"

definition getCacheKey :: "string \<Rightarrow> string" where
  "getCacheKey key = temporal_CACHE_PREFIX @ key"

text \<open>In this module the caller passes the key with its prefix already on it.\<close>

definition temporal_getCachedData ::
  "(json \<Rightarrow> real option) \<Rightarrow> real \<Rightarrow> Storage \<Rightarrow> string \<Rightarrow> json \<times> Storage" where
  "temporal_getCachedData toNumber now st key =
     (case getItem st key of
        None \<Rightarrow> (JNull, st)
      | Some cached \<Rightarrow>
          if falsy_string cached then (JNull, st)
          else (case JSON_parse cached of
              Inl e \<Rightarrow> (JNull, st)
            | Inr parsed \<Rightarrow>
                (case (getProp parsed ''aggregates'', getProp parsed ''timestamp'') of
                   (Inr aggregates', Inr timestamp) \<Rightarrow>
                     if expired toNumber now timestamp
                     then (JNull, removeItem st key)
                     else (orNull aggregates', st)
                 | _ \<Rightarrow> (JNull, st))))"

definition temporal_setCachedData ::
  "(Storage \<Rightarrow> string \<Rightarrow> jstring \<Rightarrow> bool) \<Rightarrow> real \<Rightarrow> Storage \<Rightarrow> string \<Rightarrow> json
     \<Rightarrow> Storage" where
  "temporal_setCachedData accepts now st key aggregates' =
     (case setItem accepts st key
             (JSON_stringify (JObj [(''aggregates'', aggregates'), (''timestamp'', JNum now)])) of
        Inl e \<Rightarrow> st
      | Inr st' \<Rightarrow> st')"

section \<open>The indicators of the statistics panel\<close>

subsection \<open>Numbers of the platform\<close>

text \<open>
  A \<^verbatim>\<open>number\<close> of the platform is a double: not-a-number, one of the two infinities, or
  a finite value. The two zeros are one value \<open>Fin 0\<close> here; they differ as divisors
  only, and a zero divisor is taken as the positive zero.
\<close>

datatype number = NaN | PosInf | NegInf | Fin real

text \<open>
  The result of an operation on finite numbers is the exact result rounded to a double,
  and to an infinity when it is beyond the largest double. The rounding is the platform's
  and is the parameter \<open>rnd\<close> of the operations.
\<close>

type_synonym rounding = "real \<Rightarrow> number"

fun js_add :: "rounding \<Rightarrow> number \<Rightarrow> number \<Rightarrow> number" where
  "js_add rnd NaN y = NaN"
| "js_add rnd x NaN = NaN"
| "js_add rnd PosInf NegInf = NaN"
| "js_add rnd NegInf PosInf = NaN"
| "js_add rnd PosInf y = PosInf"
| "js_add rnd NegInf y = NegInf"
| "js_add rnd (Fin x) PosInf = PosInf"
| "js_add rnd (Fin x) NegInf = NegInf"
| "js_add rnd (Fin x) (Fin y) = rnd (x + y)"

fun js_mul :: "rounding \<Rightarrow> number \<Rightarrow> number \<Rightarrow> number" where
  "js_mul rnd NaN y = NaN"
| "js_mul rnd x NaN = NaN"
| "js_mul rnd PosInf PosInf = PosInf"
| "js_mul rnd PosInf NegInf = NegInf"
| "js_mul rnd NegInf PosInf = NegInf"
| "js_mul rnd NegInf NegInf = PosInf"
| "js_mul rnd PosInf (Fin y) = (if y = 0 then NaN else if 0 < y then PosInf else NegInf)"
| "js_mul rnd NegInf (Fin y) = (if y = 0 then NaN else if 0 < y then NegInf else PosInf)"
| "js_mul rnd (Fin x) PosInf = (if x = 0 then NaN else if 0 < x then PosInf else NegInf)"
| "js_mul rnd (Fin x) NegInf = (if x = 0 then NaN else if 0 < x then NegInf else PosInf)"
| "js_mul rnd (Fin x) (Fin y) = rnd (x * y)"

text \<open>
  Division: a finite number divided by zero is an infinity, or not-a-number when it is
  zero itself; an infinity divided by an infinity is not-a-number.
\<close>

fun js_div :: "rounding \<Rightarrow> number \<Rightarrow> number \<Rightarrow> number" where
  "js_div rnd NaN y = NaN"
| "js_div rnd x NaN = NaN"
| "js_div rnd PosInf PosInf = NaN"
| "js_div rnd PosInf NegInf = NaN"
| "js_div rnd NegInf PosInf = NaN"
| "js_div rnd NegInf NegInf = NaN"
| "js_div rnd PosInf (Fin y) = (if 0 \<le> y then PosInf else NegInf)"
| "js_div rnd NegInf (Fin y) = (if 0 \<le> y then NegInf else PosInf)"
| "js_div rnd (Fin x) PosInf = Fin 0"
| "js_div rnd (Fin x) NegInf = Fin 0"
| "js_div rnd (Fin x) (Fin y) =
     (if y = 0 then (if x = 0 then NaN else if 0 < x then PosInf else NegInf)
      else rnd (x / y))"

text \<open>\<^verbatim>\<open>x > y\<close>; a comparison with not-a-number is false.\<close>

fun js_gt :: "number \<Rightarrow> number \<Rightarrow> bool" where
  "js_gt NaN y = False"
| "js_gt x NaN = False"
| "js_gt PosInf PosInf = False"
| "js_gt PosInf y = True"
| "js_gt NegInf y = False"
| "js_gt (Fin x) PosInf = False"
| "js_gt (Fin x) NegInf = True"
| "js_gt (Fin x) (Fin y) = (y < x)"

text \<open>\<^verbatim>\<open>x || 0\<close> for a number: zero and not-a-number are the falsy numbers.\<close>

fun orZero :: "number \<Rightarrow> number" where
  "orZero NaN = Fin 0"
| "orZero (Fin x) = (if x = 0 then Fin 0 else Fin x)"
| "orZero x = x"

subsection \<open>The rows and the indicators\<close>

text \<open>
  The fields of \<^verbatim>\<open>EstadisticoRow\<close> that the indicators read: the payment method, and per
  vehicle category 1 to 9 the number of vehicles and the amount collected.
\<close>

record EstadisticoRow =
  FORMA_DE_PAGO :: string
  CAT1 :: number
  VALOR_1 :: number
  CAT2 :: number
  VALOR_2 :: number
  CAT3 :: number
  VALOR_3 :: number
  CAT4 :: number
  VALOR_4 :: number
  CAT5 :: number
  VALOR_5 :: number
  CAT6 :: number
  VALOR_6 :: number
  CAT7 :: number
  VALOR_7 :: number
  CAT8 :: number
  VALOR_8 :: number
  CAT9 :: number
  VALOR_9 :: number

text \<open>
  The five indicators, and \<^verbatim>\<open>EstadisticoAggregates\<close>, which has them and the series of
  the charts.
\<close>

record Kpis =
  ingresoTotal :: number
  vehiculosEfec :: number
  vehiculosExentos :: number
  vehiculosRfid100 :: number
  porcentajeExentos :: number

record EstadisticoAggregates = Kpis +
  ingresoPorCategoria :: "(string \<times> number) list"
  efecVsExentos :: "(string \<times> number \<times> number) list"
  rfidPorTipo :: "(string \<times> number \<times> number) list"
  tiposExentos :: "(string \<times> number) list"
  evolucionMensual :: "(string \<times> number) list"

text \<open>\<^verbatim>\<open>xs.reduce(f, init)\<close>.\<close>

definition reduce :: "('b \<Rightarrow> 'a \<Rightarrow> 'b) \<Rightarrow> 'b \<Rightarrow> 'a list \<Rightarrow> 'b" where
  "reduce f init xs = foldl f init xs"

text \<open>
  The two callbacks of \<^verbatim>\<open>reduce\<close>, each written out three times in the source: the
  amounts of a row added to the sum, and the vehicles of a row added to the sum. The
  additions associate to the left, as \<^verbatim>\<open>sum + a + b\<close> does; \<open>acc\<close> is the \<^verbatim>\<open>sum\<close> of the source.
\<close>

definition addValores :: "rounding \<Rightarrow> number \<Rightarrow> EstadisticoRow \<Rightarrow> number" where
  "addValores rnd acc row =
     js_add rnd (js_add rnd (js_add rnd (js_add rnd (js_add rnd (js_add rnd (js_add rnd
       (js_add rnd (js_add rnd acc (orZero (VALOR_1 row))) (orZero (VALOR_2 row)))
         (orZero (VALOR_3 row))) (orZero (VALOR_4 row))) (orZero (VALOR_5 row)))
         (orZero (VALOR_6 row))) (orZero (VALOR_7 row))) (orZero (VALOR_8 row)))
         (orZero (VALOR_9 row))"

definition addVehiculos :: "rounding \<Rightarrow> number \<Rightarrow> EstadisticoRow \<Rightarrow> number" where
  "addVehiculos rnd acc row =
     js_add rnd (js_add rnd (js_add rnd (js_add rnd (js_add rnd (js_add rnd (js_add rnd
       (js_add rnd (js_add rnd acc (CAT1 row)) (CAT2 row)) (CAT3 row)) (CAT4 row))
         (CAT5 row)) (CAT6 row)) (CAT7 row)) (CAT8 row)) (CAT9 row)"

definition computedKpis :: "rounding \<Rightarrow> EstadisticoRow list \<Rightarrow> Kpis" where
  "computedKpis rnd rows =
     (let efec = filter (\<lambda>row. FORMA_DE_PAGO row = ''EFEC.'') rows;
          rfid0 = filter (\<lambda>row. FORMA_DE_PAGO row = ''RFID 0 %'') rows;
          rfid50 = filter (\<lambda>row. FORMA_DE_PAGO row = ''RFID 50 %'') rows;
          rfid100 = filter (\<lambda>row. FORMA_DE_PAGO row = ''RFID 100 %'') rows;
          exentos = filter (\<lambda>row. FORMA_DE_PAGO row \<noteq> ''EFEC.''
                      \<and> \<not> startsWith (FORMA_DE_PAGO row) ''RFID'') rows;
          ingresoEfec = reduce (addValores rnd) (Fin 0) efec;
          ingresoRfid0 = reduce (addValores rnd) (Fin 0) rfid0;
          ingresoRfid50 = reduce (addValores rnd) (Fin 0) rfid50;
          ingresoTotal' = js_add rnd (js_add rnd ingresoEfec ingresoRfid0) ingresoRfid50;
          vehiculosEfec' = reduce (addVehiculos rnd) (Fin 0) efec;
          vehiculosExentos' = reduce (addVehiculos rnd) (Fin 0) exentos;
          vehiculosRfid100' = reduce (addVehiculos rnd) (Fin 0) rfid100;
          totalVehiculos =
            js_add rnd (js_add rnd vehiculosEfec' vehiculosExentos') vehiculosRfid100';
          porcentajeExentos' =
            (if js_gt totalVehiculos (Fin 0)
             then js_mul rnd
                    (js_div rnd (js_add rnd vehiculosExentos' vehiculosRfid100') totalVehiculos)
                    (Fin 100)
             else Fin 0)
      in \<lparr>ingresoTotal = ingresoTotal', vehiculosEfec = vehiculosEfec',
          vehiculosExentos = vehiculosExentos', vehiculosRfid100 = vehiculosRfid100',
          porcentajeExentos = porcentajeExentos'\<rparr>)"

text \<open>
  \<^verbatim>\<open>const kpis = aggregates ? { ... } : computedKpis\<close>, from the two state variables
  \<^verbatim>\<open>aggregates\<close> (null is \<open>None\<close>) and \<^verbatim>\<open>data\<close>.
\<close>

definition kpis :: "rounding \<Rightarrow> EstadisticoAggregates option \<Rightarrow> EstadisticoRow list \<Rightarrow> Kpis" where
  "kpis rnd aggregates' rows =
     (case aggregates' of
        Some a \<Rightarrow>
          \<lparr>ingresoTotal = ingresoTotal a, vehiculosEfec = vehiculosEfec a,
           vehiculosExentos = vehiculosExentos a, vehiculosRfid100 = vehiculosRfid100 a,
           porcentajeExentos = porcentajeExentos a\<rparr>
      | None \<Rightarrow> computedKpis rnd rows)"

text \<open>
  The total number of vehicles and the percentage as the specification words them, from
  the indicators: \<open>vehiculosEfec + vehiculosExentos + vehiculosRfid100\<close> and
  \<open>((vehiculosExentos + vehiculosRfid100) / total) * 100\<close>.
\<close>

definition totalOf :: "rounding \<Rightarrow> Kpis \<Rightarrow> number" where
  "totalOf rnd k =
     js_add rnd (js_add rnd (vehiculosEfec k) (vehiculosExentos k)) (vehiculosRfid100 k)"


subsection \<open>Values for concrete runs\<close>

text \<open>A row without vehicles and amounts, from which the concrete runs build their rows.\<close>

definition blankRow :: "string \<Rightarrow> EstadisticoRow" where
  "blankRow formaDePago =
     \<lparr>FORMA_DE_PAGO = formaDePago,
      CAT1 = Fin 0, VALOR_1 = Fin 0, CAT2 = Fin 0, VALOR_2 = Fin 0, CAT3 = Fin 0,
      VALOR_3 = Fin 0, CAT4 = Fin 0, VALOR_4 = Fin 0, CAT5 = Fin 0, VALOR_5 = Fin 0,
      CAT6 = Fin 0, VALOR_6 = Fin 0, CAT7 = Fin 0, VALOR_7 = Fin 0, CAT8 = Fin 0,
      VALOR_8 = Fin 0, CAT9 = Fin 0, VALOR_9 = Fin 0\<rparr>"



section \<open>The data panels\<close>

subsection \<open>What the panels share\<close>

text \<open>
  What a panel takes from the platform: the base URL of the backend (an environment
  variable), \<^verbatim>\<open>format(date, "yyyy-MM-dd")\<close> of the date library, \<^verbatim>\<open>URLSearchParams.toString\<close>,
  the conversion of a number to a string in a template literal,
  \<^verbatim>\<open>new Date(s).getTime()\<close>, and the two parameters of the cache functions above.
\<close>

record 'd platform =
  BASE_URL :: string
  format_date :: "'d \<Rightarrow> string"
  searchParams_toString :: "(string \<times> string) list \<Rightarrow> string"
  number_toString :: "int \<Rightarrow> string"
  date_getTime :: "string \<Rightarrow> real"
  coerce_number :: "json \<Rightarrow> real option"
  storage_accepts :: "Storage \<Rightarrow> string \<Rightarrow> jstring \<Rightarrow> bool"

text \<open>
  \<^verbatim>\<open>DateRange\<close> of the date picker: both ends are optional, and the state variable that
  holds the range may be undefined.
\<close>

record 'd DateRange =
  from_date :: "'d option"
  to_date :: "'d option"

text \<open>
  The state variables \<^verbatim>\<open>data\<close> and \<^verbatim>\<open>aggregates\<close> of a panel, next to \<^verbatim>\<open>loading\<close> and
  \<^verbatim>\<open>error\<close>; a panel without one of them has \<open>unit\<close> in its place. The setters are
  those of \<^verbatim>\<open>React.useState\<close>.
\<close>

record ('d, 'a) panel_state = request_state +
  data_state :: 'd
  aggregates_state :: 'a

definition setLoading :: "bool \<Rightarrow> 'z request_state_scheme \<Rightarrow> 'z request_state_scheme" where
  "setLoading v st = st\<lparr>loading := v\<rparr>"

definition setError :: "string option \<Rightarrow> 'z request_state_scheme \<Rightarrow> 'z request_state_scheme" where
  "setError v st = st\<lparr>error := v\<rparr>"

definition setData ::
  "'d \<Rightarrow> ('d, 'a, 'z) panel_state_scheme \<Rightarrow> ('d, 'a, 'z) panel_state_scheme" where
  "setData v st = st\<lparr>data_state := v\<rparr>"

definition setAggregates ::
  "'a \<Rightarrow> ('d, 'a, 'z) panel_state_scheme \<Rightarrow> ('d, 'a, 'z) panel_state_scheme" where
  "setAggregates v st = st\<lparr>aggregates_state := v\<rparr>"

text \<open>\<^verbatim>\<open>if (isMounted) { ... }\<close> around state updates.\<close>

definition whenMounted :: "bool \<Rightarrow> ('s \<Rightarrow> 's) \<Rightarrow> 's \<Rightarrow> 's" where
  "whenMounted isMounted update st = (if isMounted then update st else st)"

text \<open>
  The \<^verbatim>\<open>catch\<close> and \<^verbatim>\<open>finally\<close> blocks, which every panel has in the same words:
  \<^verbatim>\<open>catch (err) { if (isMounted) setError(err instanceof Error ? err.message : ...) }\<close>
  \<^verbatim>\<open>finally { if (isMounted) setLoading(false) }\<close>.
\<close>

definition finallyBlock :: "bool \<Rightarrow> 'z request_state_scheme \<Rightarrow> 'z request_state_scheme" where
  "finallyBlock isMounted st = whenMounted isMounted (setLoading False) st"

definition catchBlock :: "bool \<Rightarrow> exn \<Rightarrow> 'z request_state_scheme \<Rightarrow> 'z request_state_scheme" where
  "catchBlock isMounted err st =
     finallyBlock isMounted (whenMounted isMounted (setError (Some (message err))) st)"

text \<open>
  \<^verbatim>\<open>fetchData\<close> is an async function: it runs up to its first \<^verbatim>\<open>await\<close> when the effect
  calls it, and goes on each time the awaited promise settles. A task says what it awaits
  next: the response of \<^verbatim>\<open>fetch\<close>, its parsed body, or the value of a promise that is
  already resolved.
\<close>

datatype task = Done | AwaitFetch | AwaitJson | AwaitValue json

text \<open>
  The dependency array of \<^verbatim>\<open>React.useEffect\<close>: after a render the effect runs again (its
  cleanup first) when a dependency is not the value it had at the render before. A state
  variable whose value has changed is such a dependency, and a state variable that was not
  set is not: it still holds the same string, or the same object.
\<close>

definition effectRuns :: "'deps \<Rightarrow> 'deps \<Rightarrow> bool" where
  "effectRuns before after \<longleftrightarrow> before \<noteq> after"

text \<open>\<^verbatim>\<open>`${BASE_URL}${ENDPOINT}?${params.toString()}`\<close>.\<close>

definition endpointUrl :: "'d platform \<Rightarrow> string \<Rightarrow> (string \<times> string) list \<Rightarrow> string" where
  "endpointUrl pf endpoint params = BASE_URL pf @ endpoint @ ''?'' @ searchParams_toString pf params"

text \<open>
  The parameters \<^verbatim>\<open>desde\<close> and \<^verbatim>\<open>hasta\<close>, appended when the range has a start; an open
  range ends where it starts.
\<close>

definition dateRangeParams :: "'d platform \<Rightarrow> 'd DateRange option \<Rightarrow> (string \<times> string) list" where
  "dateRangeParams pf dateRange =
     (case dateRange of
        None \<Rightarrow> []
      | Some picked \<Rightarrow>
          (case from_date picked of
             None \<Rightarrow> []
           | Some start \<Rightarrow>
               let desde = format_date pf start;
                   hasta = (case to_date picked of Some e \<Rightarrow> format_date pf e | None \<Rightarrow> desde)
               in [(''desde'', desde), (''hasta'', hasta)]))"

definition getDateRangeKey :: "'d platform \<Rightarrow> 'd DateRange option \<Rightarrow> string" where
  "getDateRangeKey pf dateRange =
     (case dateRange of
        None \<Rightarrow> ''sin-fecha''
      | Some picked \<Rightarrow>
          (case from_date picked of
             None \<Rightarrow> ''sin-fecha''
           | Some start \<Rightarrow>
               let desde = format_date pf start;
                   hasta = (case to_date picked of Some e \<Rightarrow> format_date pf e | None \<Rightarrow> desde)
               in desde @ ''_'' @ hasta))"

text \<open>\<^verbatim>\<open>if (!response.ok) throw new Error(`Error ${response.status}`)\<close>.\<close>

definition statusError :: "'d platform \<Rightarrow> 'b Response \<Rightarrow> exn" where
  "statusError pf response = Error (''Error '' @ number_toString pf (status response))"

text \<open>\<^verbatim>\<open>const includeData = false\<close>, in the panels that have it.\<close>

definition includeData :: bool where
  "includeData = False"

subsection \<open>ChartEstadistico\<close>

definition estadistico_ENDPOINT :: string where
  "estadistico_ENDPOINT = ''/r-estadistico''"

definition estadistico_params ::
  "'d platform \<Rightarrow> 'd DateRange option \<Rightarrow> string \<Rightarrow> (string \<times> string) list" where
  "estadistico_params pf dateRange peaje =
     dateRangeParams pf dateRange
     @ (if peaje \<noteq> ''all'' then [(''idPeaje'', peaje)] else [])
     @ (if includeData then [(''includeData'', ''true'')] else [])"

definition estadistico_cacheKey :: "'d platform \<Rightarrow> 'd DateRange option \<Rightarrow> string \<Rightarrow> string" where
  "estadistico_cacheKey pf dateRange peaje = getDateRangeKey pf dateRange @ ''-'' @ peaje"

text \<open>
  The body of the response as a payload:
  \<^verbatim>\<open>Array.isArray(json) ? { data: json, aggregates: null }\<close>
  \<^verbatim>\<open>: { data: json.data ?? [], aggregates: json.aggregates ?? null }\<close>.
\<close>

definition estadistico_payload :: "json \<Rightarrow> exn + EstadisticoResponse" where
  "estadistico_payload body' =
     (case body' of
        JArr rows \<Rightarrow> Inr \<lparr>data = JArr rows, aggregates = Some JNull\<rparr>
      | _ \<Rightarrow>
          (case (getProp body' ''data'', getProp body' ''aggregates'') of
             (Inr d, Inr a) \<Rightarrow>
               Inr \<lparr>data = (case d of None \<Rightarrow> JArr [] | Some JNull \<Rightarrow> JArr [] | Some v \<Rightarrow> v),
                    aggregates = Some (orNull a)\<rparr>
           | (Inl err, _) \<Rightarrow> Inl err
           | (_, Inl err) \<Rightarrow> Inl err))"

text \<open>
  The run of \<^verbatim>\<open>fetchData\<close> up to its first \<^verbatim>\<open>await\<close>, right after \<^verbatim>\<open>isMounted = true\<close>:
  the new state, the storage, the URLs it has called \<^verbatim>\<open>fetch\<close> with, and what it awaits.
  On a cached payload it sets the state and returns without a request.
\<close>

definition estadistico_fetchData_start ::
  "'d platform \<Rightarrow> real \<Rightarrow> Storage \<Rightarrow> 'd DateRange option \<Rightarrow> string
     \<Rightarrow> (json, json) panel_state \<Rightarrow> (json, json) panel_state \<times> Storage \<times> string list \<times> task" where
  "estadistico_fetchData_start pf now storage dateRange peaje st =
     (let st1 = setLoading True st;
          params = estadistico_params pf dateRange peaje;
          cacheKey = estadistico_cacheKey pf dateRange peaje
      in case estadistico_getCachedData (coerce_number pf) now storage cacheKey of
           (Some cachedData, storage') \<Rightarrow>
             (finallyBlock True
                (whenMounted True
                   (setLoading False \<circ> setError None
                      \<circ> setAggregates (orNull (aggregates cachedData))
                      \<circ> setData (data cachedData)) st1),
              storage', [], Done)
         | (None, storage') \<Rightarrow>
             (st1, storage', [endpointUrl pf estadistico_ENDPOINT params], AwaitFetch))"

text \<open>\<^verbatim>\<open>fetchData\<close> going on when \<^verbatim>\<open>fetch(url)\<close> has settled; \<open>isMounted\<close> is the flag then.\<close>

definition estadistico_fetchSettled ::
  "'d platform \<Rightarrow> bool \<Rightarrow> exn + 'b Response
     \<Rightarrow> (json, json) panel_state \<Rightarrow> (json, json) panel_state \<times> task" where
  "estadistico_fetchSettled pf isMounted outcome st =
     (case outcome of
        Inl err \<Rightarrow> (catchBlock isMounted err st, Done)
      | Inr response \<Rightarrow>
          if \<not> ok response then (catchBlock isMounted (statusError pf response) st, Done)
          else (st, AwaitJson))"

text \<open>\<^verbatim>\<open>fetchData\<close> going on when \<^verbatim>\<open>response.json()\<close> has settled.\<close>

definition estadistico_jsonSettled ::
  "'d platform \<Rightarrow> bool \<Rightarrow> real \<Rightarrow> Storage \<Rightarrow> 'd DateRange option \<Rightarrow> string \<Rightarrow> exn + json
     \<Rightarrow> (json, json) panel_state \<Rightarrow> (json, json) panel_state \<times> Storage" where
  "estadistico_jsonSettled pf isMounted now storage dateRange peaje outcome st =
     (case outcome of
        Inl err \<Rightarrow> (catchBlock isMounted err st, storage)
      | Inr body' \<Rightarrow>
          (case estadistico_payload body' of
             Inl err \<Rightarrow> (catchBlock isMounted err st, storage)
           | Inr payload \<Rightarrow>
               if isMounted
               then (finallyBlock isMounted
                       ((setError None \<circ> setAggregates (orNull (aggregates payload))
                          \<circ> setData (data payload)) st),
                     estadistico_setCachedData (storage_accepts pf) now storage
                       (estadistico_cacheKey pf dateRange peaje) payload)
               else (finallyBlock isMounted st, storage)))"

subsection \<open>ChartCabinas\<close>

definition cabinas_ENDPOINT :: string where
  "cabinas_ENDPOINT = ''/r-estadistico/analisis-cabinas''"

definition cabinas_params :: "string \<Rightarrow> string \<Rightarrow> (string \<times> string) list" where
  "cabinas_params timeRange peaje =
     (if timeRange = ''ultimos7d''
      then [(''take'', if peaje = ''all'' then ''10000'' else ''10000'')]
      else if timeRange = ''mesActual''
      then [(''rango'', ''mesActual''), (''take'', if peaje = ''all'' then ''30000'' else ''30000'')]
      else if timeRange = ''ultimoMes''
      then [(''rango'', ''ultimoMes''), (''take'', if peaje = ''all'' then ''30000'' else ''35000'')]
      else if timeRange = ''ultimos90d''
      then [(''rango'', ''ultimos90d''), (''take'', if peaje = ''all'' then ''30000'' else ''30000'')]
      else [])
     @ (if peaje \<noteq> ''all'' then [(''idPeaje'', peaje)] else [])"

definition cabinas_cacheKey :: "string \<Rightarrow> string \<Rightarrow> string" where
  "cabinas_cacheKey timeRange peaje = timeRange @ ''-'' @ peaje"

text \<open>\<^verbatim>\<open>if (cachedData)\<close>: null is falsy, and so are the values false, 0 and "".\<close>

fun truthy :: "json \<Rightarrow> bool" where
  "truthy JNull = False"
| "truthy (JBool b) = b"
| "truthy (JNum x) = (x \<noteq> 0)"
| "truthy (JStr s) = (s \<noteq> [])"
| "truthy (JArr xs) = True"
| "truthy (JObj props) = True"

definition cabinas_fetchData_start ::
  "'d platform \<Rightarrow> real \<Rightarrow> Storage \<Rightarrow> string \<Rightarrow> string
     \<Rightarrow> (unit, json) panel_state \<Rightarrow> (unit, json) panel_state \<times> Storage \<times> string list \<times> task" where
  "cabinas_fetchData_start pf now storage timeRange peaje st =
     (let st1 = setLoading True st;
          params = cabinas_params timeRange peaje;
          cacheKey = cabinas_cacheKey timeRange peaje
      in case cabinas_getCachedData (coerce_number pf) now storage cacheKey of
           (cachedData, storage') \<Rightarrow>
             if truthy cachedData
             then (finallyBlock True
                     (whenMounted True
                        (setLoading False \<circ> setError None \<circ> setAggregates cachedData) st1),
                   storage', [], Done)
             else (st1, storage', [endpointUrl pf cabinas_ENDPOINT params], AwaitFetch))"

definition cabinas_fetchSettled ::
  "'d platform \<Rightarrow> bool \<Rightarrow> exn + 'b Response
     \<Rightarrow> (unit, json) panel_state \<Rightarrow> (unit, json) panel_state \<times> task" where
  "cabinas_fetchSettled pf isMounted outcome st =
     (case outcome of
        Inl err \<Rightarrow> (catchBlock isMounted err st, Done)
      | Inr response \<Rightarrow>
          if \<not> ok response then (catchBlock isMounted (statusError pf response) st, Done)
          else (st, AwaitJson))"

definition cabinas_jsonSettled ::
  "'d platform \<Rightarrow> bool \<Rightarrow> real \<Rightarrow> Storage \<Rightarrow> string \<Rightarrow> string \<Rightarrow> exn + json
     \<Rightarrow> (unit, json) panel_state \<Rightarrow> (unit, json) panel_state \<times> Storage" where
  "cabinas_jsonSettled pf isMounted now storage timeRange peaje outcome st =
     (case outcome of
        Inl err \<Rightarrow> (catchBlock isMounted err st, storage)
      | Inr body' \<Rightarrow>
          (case getProp body' ''aggregates'' of
             Inl err \<Rightarrow> (catchBlock isMounted err st, storage)
           | Inr a \<Rightarrow>
               let aggregatesPayload = orNull a
               in if isMounted
                  then (finallyBlock isMounted
                          ((setError None \<circ> setAggregates aggregatesPayload) st),
                        cabinas_setCachedData (storage_accepts pf) now storage
                          (cabinas_cacheKey timeRange peaje) aggregatesPayload)
                  else (finallyBlock isMounted st, storage)))"

subsection \<open>ChartTemporal\<close>

definition temporal_ENDPOINT :: string where
  "temporal_ENDPOINT = ''/r-estadistico/analisis-temporal''"

definition temporal_params ::
  "'d platform \<Rightarrow> 'd DateRange option \<Rightarrow> string \<Rightarrow> (string \<times> string) list" where
  "temporal_params pf dateRange peaje =
     dateRangeParams pf dateRange
     @ (if peaje \<noteq> ''all'' then [(''idPeaje'', peaje)] else [])"

definition temporal_cacheKey :: "'d platform \<Rightarrow> 'd DateRange option \<Rightarrow> string \<Rightarrow> string" where
  "temporal_cacheKey pf dateRange peaje =
     getCacheKey (getDateRangeKey pf dateRange @ ''-'' @ peaje)"

text \<open>
  \<^verbatim>\<open>fetchTemporalAggregates\<close> up to its first \<^verbatim>\<open>await\<close>: the cached aggregates that it
  returns, if any, the storage and the URLs fetched.
\<close>

definition fetchTemporalAggregates_start ::
  "'d platform \<Rightarrow> real \<Rightarrow> Storage \<Rightarrow> 'd DateRange option \<Rightarrow> string
     \<Rightarrow> json option \<times> Storage \<times> string list" where
  "fetchTemporalAggregates_start pf now storage dateRange peaje =
     (case temporal_getCachedData (coerce_number pf) now storage
             (temporal_cacheKey pf dateRange peaje) of
        (cached, storage') \<Rightarrow>
          if truthy cached then (Some cached, storage', [])
          else (None, storage',
                [endpointUrl pf temporal_ENDPOINT (temporal_params pf dateRange peaje)]))"

text \<open>When \<^verbatim>\<open>fetch(url)\<close> has settled: the exception thrown, or on to the body.\<close>

definition fetchTemporalAggregates_fetchSettled :: "exn + 'b Response \<Rightarrow> exn + unit" where
  "fetchTemporalAggregates_fetchSettled outcome =
     (case outcome of
        Inl err \<Rightarrow> Inl err
      | Inr response \<Rightarrow>
          if \<not> ok response
          then Inl (Error (''Error al cargar datos: '' @ statusText response))
          else Inr ())"

text \<open>
  When \<^verbatim>\<open>response.json()\<close> has settled: the aggregates are written to the cache, with no
  look at the mount flag, which this function does not see, and returned.
\<close>

definition fetchTemporalAggregates_jsonSettled ::
  "'d platform \<Rightarrow> real \<Rightarrow> Storage \<Rightarrow> 'd DateRange option \<Rightarrow> string \<Rightarrow> exn + json
     \<Rightarrow> (exn + json) \<times> Storage" where
  "fetchTemporalAggregates_jsonSettled pf now storage dateRange peaje outcome =
     (case outcome of
        Inl err \<Rightarrow> (Inl err, storage)
      | Inr body' \<Rightarrow>
          (case getProp body' ''aggregates'' of
             Inl err \<Rightarrow> (Inl err, storage)
           | Inr a \<Rightarrow>
               (Inr (orNull a),
                temporal_setCachedData (storage_accepts pf) now storage
                  (temporal_cacheKey pf dateRange peaje) (orNull a))))"

text \<open>\<^verbatim>\<open>loadData\<close> up to \<^verbatim>\<open>await fetchTemporalAggregates(dateRange, peaje)\<close>.\<close>

definition temporal_loadData_start ::
  "'d platform \<Rightarrow> real \<Rightarrow> Storage \<Rightarrow> 'd DateRange option \<Rightarrow> string
     \<Rightarrow> (unit, json) panel_state \<Rightarrow> (unit, json) panel_state \<times> Storage \<times> string list \<times> task" where
  "temporal_loadData_start pf now storage dateRange peaje st =
     (let st1 = setError None (setLoading True st)
      in case fetchTemporalAggregates_start pf now storage dateRange peaje of
           (Some cached, storage', urls) \<Rightarrow> (st1, storage', urls, AwaitValue cached)
         | (None, storage', urls) \<Rightarrow> (st1, storage', urls, AwaitFetch))"

text \<open>\<^verbatim>\<open>loadData\<close> going on when the promise of \<^verbatim>\<open>fetchTemporalAggregates\<close> has settled.\<close>

definition temporal_resultSettled ::
  "bool \<Rightarrow> exn + json \<Rightarrow> (unit, json) panel_state \<Rightarrow> (unit, json) panel_state" where
  "temporal_resultSettled isMounted outcome st =
     (case outcome of
        Inl err \<Rightarrow> catchBlock isMounted err st
      | Inr result \<Rightarrow> finallyBlock isMounted (whenMounted isMounted (setAggregates result) st))"

definition temporal_fetchSettled ::
  "bool \<Rightarrow> exn + 'b Response \<Rightarrow> (unit, json) panel_state \<Rightarrow> (unit, json) panel_state \<times> task" where
  "temporal_fetchSettled isMounted outcome st =
     (case fetchTemporalAggregates_fetchSettled outcome of
        Inl err \<Rightarrow> (temporal_resultSettled isMounted (Inl err) st, Done)
      | Inr u \<Rightarrow> (st, AwaitJson))"

definition temporal_jsonSettled ::
  "'d platform \<Rightarrow> bool \<Rightarrow> real \<Rightarrow> Storage \<Rightarrow> 'd DateRange option \<Rightarrow> string \<Rightarrow> exn + json
     \<Rightarrow> (unit, json) panel_state \<Rightarrow> (unit, json) panel_state \<times> Storage" where
  "temporal_jsonSettled pf isMounted now storage dateRange peaje outcome st =
     (case fetchTemporalAggregates_jsonSettled pf now storage dateRange peaje outcome of
        (result, storage') \<Rightarrow> (temporal_resultSettled isMounted result st, storage'))"

subsection \<open>TableFacturacion, with a time range\<close>

definition facturacion_ENDPOINT :: string where
  "facturacion_ENDPOINT = ''/facturacion''"

definition facturacion_params :: "string \<Rightarrow> string \<Rightarrow> (string \<times> string) list" where
  "facturacion_params timeRange peaje =
     (if timeRange = ''7d'' then [(''rango'', ''ultimos7d''), (''take'', ''1000'')]
      else if timeRange = ''30d'' then [(''rango'', ''ultimoMes''), (''take'', ''3000'')]
      else if timeRange = ''mesActual'' then [(''rango'', ''mesActual''), (''take'', ''3000'')]
      else [(''take'', ''5000'')])
     @ (if peaje \<noteq> ''all'' then [(''nombrePeaje'', peaje)] else [])"

text \<open>
  The state variables of the table that are filters: \<^verbatim>\<open>timeRange\<close>, \<^verbatim>\<open>peaje\<close> and
  \<^verbatim>\<open>turno\<close>. The dependency array of the effect is \<^verbatim>\<open>[timeRange, peaje]\<close>.
\<close>

definition facturacion_deps :: "string \<times> string \<times> string \<Rightarrow> string \<times> string" where
  "facturacion_deps = (\<lambda>(timeRange, peaje, turno). (timeRange, peaje))"

definition facturacion_fetchData_start ::
  "'d platform \<Rightarrow> string \<Rightarrow> string
     \<Rightarrow> (json, unit) panel_state \<Rightarrow> (json, unit) panel_state \<times> string list \<times> task" where
  "facturacion_fetchData_start pf timeRange peaje st =
     (setLoading True st,
      [endpointUrl pf facturacion_ENDPOINT (facturacion_params timeRange peaje)],
      AwaitFetch)"

definition facturacion_fetchSettled ::
  "'d platform \<Rightarrow> bool \<Rightarrow> exn + 'b Response
     \<Rightarrow> (json, unit) panel_state \<Rightarrow> (json, unit) panel_state \<times> task" where
  "facturacion_fetchSettled pf isMounted outcome st =
     (case outcome of
        Inl err \<Rightarrow> (catchBlock isMounted err st, Done)
      | Inr response \<Rightarrow>
          if \<not> ok response then (catchBlock isMounted (statusError pf response) st, Done)
          else (st, AwaitJson))"

definition facturacion_jsonSettled ::
  "bool \<Rightarrow> exn + json \<Rightarrow> (json, unit) panel_state \<Rightarrow> (json, unit) panel_state" where
  "facturacion_jsonSettled isMounted outcome st =
     (case outcome of
        Inl err \<Rightarrow> catchBlock isMounted err st
      | Inr body' \<Rightarrow>
          finallyBlock isMounted (whenMounted isMounted (setError None \<circ> setData body') st))"

subsection \<open>TableFacturacion, with a date range\<close>

definition facturacion_dateRange_params ::
  "'d platform \<Rightarrow> 'd DateRange option \<Rightarrow> string \<Rightarrow> (string \<times> string) list" where
  "facturacion_dateRange_params pf dateRange peaje =
     dateRangeParams pf dateRange
     @ (if peaje \<noteq> ''all'' then [(''nombrePeaje'', peaje)] else [])"

definition facturacion_dateRange_deps ::
  "'d DateRange option \<times> string \<times> string \<Rightarrow> 'd DateRange option \<times> string" where
  "facturacion_dateRange_deps = (\<lambda>(dateRange, peaje, turno). (dateRange, peaje))"

text \<open>
  This version calls \<^verbatim>\<open>apiFetch(url)\<close>, whose first call of \<^verbatim>\<open>fetch\<close> is made at once, with
  the URL that \<^verbatim>\<open>buildUrl\<close> makes; the base URL of \<^verbatim>\<open>lib/api\<close> is the same environment
  variable. What the panel awaits is the promise of \<^verbatim>\<open>apiFetch\<close>; from there on
  \<^verbatim>\<open>fetchData\<close> is that of the version with a time range.
\<close>

definition facturacion_dateRange_fetchData_start ::
  "'d platform \<Rightarrow> 'd DateRange option \<Rightarrow> string
     \<Rightarrow> (json, unit) panel_state \<Rightarrow> (json, unit) panel_state \<times> string list \<times> task" where
  "facturacion_dateRange_fetchData_start pf dateRange peaje st =
     (setLoading True st,
      [buildUrl (BASE_URL pf)
         (endpointUrl pf facturacion_ENDPOINT (facturacion_dateRange_params pf dateRange peaje))],
      AwaitFetch)"

subsection \<open>ChartRadialStacked, with a time range\<close>

definition ventasTag_ENDPOINT :: string where
  "ventasTag_ENDPOINT = ''/ventas-tag''"

definition ventasTag_params :: "string \<Rightarrow> (string \<times> string) list" where
  "ventasTag_params timeRange =
     (let (rangoParam, taken) =
            (if timeRange = ''7d'' then (''ultimos7dAnterior'', [(''take'', ''1000'')])
             else if timeRange = ''30d'' then (''ultimoMesAnterior'', [(''take'', ''5000'')])
             else if timeRange = ''90d'' then (''ultimos90dAnterior'', [(''take'', ''10000'')])
             else if timeRange = ''mesActual'' then (''mesActual'', [(''take'', ''5000'')])
             else ('''', []))
      in taken
         @ (if includeData then [(''includeData'', ''true'')] else [])
         @ [(''rango'', rangoParam)])"

text \<open>
  \<^verbatim>\<open>"aggregates" in json ? json.aggregates ?? null : null\<close>. The operator \<^verbatim>\<open>in\<close> throws
  on a value that is not an object; an array has no such property.
\<close>

fun aggregatesIn :: "json \<Rightarrow> exn + json" where
  "aggregatesIn (JObj props) = Inr (orNull (map_of props ''aggregates''))"
| "aggregatesIn (JArr xs) = Inr JNull"
| "aggregatesIn v = Inl (TypeError ''Cannot use in operator'')"

definition ventasTag_fetchData_start ::
  "'d platform \<Rightarrow> string
     \<Rightarrow> (unit, json) panel_state \<Rightarrow> (unit, json) panel_state \<times> string list \<times> task" where
  "ventasTag_fetchData_start pf timeRange st =
     (setLoading True st,
      [endpointUrl pf ventasTag_ENDPOINT (ventasTag_params timeRange)],
      AwaitFetch)"

text \<open>
  The two continuations are the same, word for word, in both versions of
  \<^verbatim>\<open>ChartRadialStacked\<close> and in \<^verbatim>\<open>ChartAreaInteractive\<close>.
\<close>

definition aggregatesPanel_fetchSettled ::
  "'d platform \<Rightarrow> bool \<Rightarrow> exn + 'b Response
     \<Rightarrow> (unit, json) panel_state \<Rightarrow> (unit, json) panel_state \<times> task" where
  "aggregatesPanel_fetchSettled pf isMounted outcome st =
     (case outcome of
        Inl err \<Rightarrow> (catchBlock isMounted err st, Done)
      | Inr response \<Rightarrow>
          if \<not> ok response then (catchBlock isMounted (statusError pf response) st, Done)
          else (st, AwaitJson))"

definition aggregatesPanel_jsonSettled ::
  "bool \<Rightarrow> exn + json \<Rightarrow> (unit, json) panel_state \<Rightarrow> (unit, json) panel_state" where
  "aggregatesPanel_jsonSettled isMounted outcome st =
     (case outcome of
        Inl err \<Rightarrow> catchBlock isMounted err st
      | Inr body' \<Rightarrow>
          (case aggregatesIn body' of
             Inl err \<Rightarrow> catchBlock isMounted err st
           | Inr aggregatesPayload \<Rightarrow>
               finallyBlock isMounted
                 (whenMounted isMounted (setError None \<circ> setAggregates aggregatesPayload) st)))"

subsection \<open>ChartRadialStacked, with a date range\<close>

definition ventasTag_dateRange_params ::
  "'d platform \<Rightarrow> 'd DateRange option \<Rightarrow> (string \<times> string) list" where
  "ventasTag_dateRange_params pf dateRange =
     dateRangeParams pf dateRange
     @ (if includeData then [(''includeData'', ''true'')] else [])"

definition ventasTag_dateRange_fetchData_start ::
  "'d platform \<Rightarrow> 'd DateRange option
     \<Rightarrow> (unit, json) panel_state \<Rightarrow> (unit, json) panel_state \<times> string list \<times> task" where
  "ventasTag_dateRange_fetchData_start pf dateRange st =
     (setLoading True st,
      [buildUrl (BASE_URL pf)
         (endpointUrl pf ventasTag_ENDPOINT (ventasTag_dateRange_params pf dateRange))],
      AwaitFetch)"

subsection \<open>ChartAreaInteractive\<close>

definition recaudacion_ENDPOINT :: string where
  "recaudacion_ENDPOINT = ''/recaudacion''"

definition recaudacion_params :: "string \<Rightarrow> string \<Rightarrow> (string \<times> string) list" where
  "recaudacion_params timeRange turno =
     (let (rangoParam, taken) =
            (if timeRange = ''7d'' then (''ultimos7dAnterior'', [(''take'', ''1000'')])
             else if timeRange = ''30d'' then (''ultimoMesAnterior'', [(''take'', ''2000'')])
             else if timeRange = ''90d'' then (''ultimos90dAnterior'', [(''take'', ''5000'')])
             else if timeRange = ''mesActual'' then (''mesActual'', [(''take'', ''2000'')])
             else ('''', []))
      in taken
         @ (if turno \<noteq> ''all'' then [(''turno'', turno)] else [])
         @ (if includeData then [(''includeData'', ''true'')] else [])
         @ [(''rango'', rangoParam)])"

definition recaudacion_fetchData_start ::
  "'d platform \<Rightarrow> string \<Rightarrow> string
     \<Rightarrow> (unit, json) panel_state \<Rightarrow> (unit, json) panel_state \<times> string list \<times> task" where
  "recaudacion_fetchData_start pf timeRange turno st =
     (setLoading True st,
      [endpointUrl pf recaudacion_ENDPOINT (recaudacion_params timeRange turno)],
      AwaitFetch)"

subsection \<open>ChartTransito\<close>

definition transitos_ENDPOINT :: string where
  "transitos_ENDPOINT = ''/transitos''"

definition transitos_baseParams :: "string \<Rightarrow> string \<Rightarrow> (string \<times> string) list" where
  "transitos_baseParams timeRange turno =
     (if timeRange = ''7d'' then [(''rango'', ''ultimos7d''), (''take'', ''50000'')]
      else if timeRange = ''30d'' then [(''rango'', ''ultimoMes''), (''take'', ''50000'')]
      else if timeRange = ''mesActual'' then [(''rango'', ''mesActual''), (''take'', ''50000'')]
      else [(''take'', ''50000'')])
     @ (if turno \<noteq> ''all'' then [(''turno'', turno)] else [])"

text \<open>The panel makes two calls in parallel, one for each toll station.\<close>

definition transitos_urls :: "'d platform \<Rightarrow> string \<Rightarrow> string \<Rightarrow> string list" where
  "transitos_urls pf timeRange turno =
     (let baseParams = transitos_baseParams timeRange turno;
          paramsConoma = baseParams @ [(''nombrePeaje'', ''CONGOMA'')];
          paramsLosAngeles = baseParams @ [(''nombrePeaje'', ''LOS ANGELES'')]
      in [endpointUrl pf transitos_ENDPOINT paramsConoma,
          endpointUrl pf transitos_ENDPOINT paramsLosAngeles])"

text \<open>
  \<^verbatim>\<open>TransitoAggregates\<close>: an entry of \<^verbatim>\<open>porHoraDia\<close> is a date with its hours, an hour
  entry is an hour with a number of vehicles. \<^verbatim>\<open>ChartRow\<close> is a row of the chart.
\<close>

record TransitoAggregates =
  totalTransitos :: real
  porHora :: "(string \<times> real) list"
  porHoraDia :: "(string \<times> (string \<times> real) list) list"

record ChartRow =
  date :: string
  congoma :: real
  losAngeles :: real

datatype station = Congoma | LosAngeles

text \<open>
  \<^verbatim>\<open>combined\<close> is a \<^verbatim>\<open>Map\<close> from the date key to its row, kept here as the list of its
  entries in the order of insertion. \<^verbatim>\<open>current[key] += cantidad; combined.set(dateKey, current)\<close>
  on the row of the key, or on a new row at the end.
\<close>

definition addTo :: "station \<Rightarrow> real \<Rightarrow> ChartRow \<Rightarrow> ChartRow" where
  "addTo key cantidad current =
     (case key of
        Congoma \<Rightarrow> current\<lparr>congoma := congoma current + cantidad\<rparr>
      | LosAngeles \<Rightarrow> current\<lparr>losAngeles := losAngeles current + cantidad\<rparr>)"

fun upsert :: "station \<Rightarrow> string \<Rightarrow> real \<Rightarrow> (string \<times> ChartRow) list \<Rightarrow> (string \<times> ChartRow) list" where
  "upsert key dateKey cantidad [] =
     [(dateKey, addTo key cantidad \<lparr>date = dateKey, congoma = 0, losAngeles = 0\<rparr>)]"
| "upsert key dateKey cantidad ((k, current) # rest) =
     (if k = dateKey then (k, addTo key cantidad current) # rest
      else (k, current) # upsert key dateKey cantidad rest)"

definition applyAggregates ::
  "TransitoAggregates option \<Rightarrow> station \<Rightarrow> (string \<times> ChartRow) list \<Rightarrow> (string \<times> ChartRow) list" where
  "applyAggregates aggregates' key combined =
     (case aggregates' of
        None \<Rightarrow> combined
      | Some a \<Rightarrow>
          if porHoraDia a = [] then combined
          else foldl (\<lambda>m (fecha, horas).
                 foldl (\<lambda>m' (hora, cantidad).
                    upsert key (fecha @ ''T'' @ hora @ '':00'') cantidad m') m horas)
               combined (porHoraDia a))"

text \<open>
  The rows of the chart from the aggregates of the two bodies, sorted by the time of
  their date; the sort of the platform is stable.
\<close>

definition transitos_result ::
  "'d platform \<Rightarrow> TransitoAggregates option \<Rightarrow> TransitoAggregates option \<Rightarrow> ChartRow list" where
  "transitos_result pf aggregatesConoma aggregatesLosAngeles =
     sort_key (\<lambda>row. date_getTime pf (date row))
       (map snd (applyAggregates aggregatesLosAngeles LosAngeles
          (applyAggregates aggregatesConoma Congoma [])))"

definition transitos_fetchData_start ::
  "'d platform \<Rightarrow> string \<Rightarrow> string
     \<Rightarrow> (ChartRow list, unit) panel_state
     \<Rightarrow> (ChartRow list, unit) panel_state \<times> string list \<times> task" where
  "transitos_fetchData_start pf timeRange turno st =
     (setLoading True st, transitos_urls pf timeRange turno, AwaitFetch)"

text \<open>
  When \<^verbatim>\<open>Promise.all([fetch(urlConoma), fetch(urlLosAngeles)])\<close> has settled, with the
  first rejection or with both responses.
\<close>

definition transitos_fetchSettled ::
  "'d platform \<Rightarrow> bool \<Rightarrow> exn + 'b Response \<times> 'b Response
     \<Rightarrow> (ChartRow list, unit) panel_state \<Rightarrow> (ChartRow list, unit) panel_state \<times> task" where
  "transitos_fetchSettled pf isMounted outcome st =
     (case outcome of
        Inl err \<Rightarrow> (catchBlock isMounted err st, Done)
      | Inr (responseConoma, responseLosAngeles) \<Rightarrow>
          if \<not> ok responseConoma \<or> \<not> ok responseLosAngeles
          then (catchBlock isMounted
                  (statusError pf
                     (if \<not> ok responseConoma then responseConoma else responseLosAngeles)) st,
                Done)
          else (st, AwaitJson))"

text \<open>
  When the two bodies are parsed; they are read at the type \<^verbatim>\<open>TransitoResponse\<close> that
  the code casts them to, of which the aggregates are used.
\<close>

definition transitos_jsonSettled ::
  "'d platform \<Rightarrow> bool \<Rightarrow> exn + TransitoAggregates option \<times> TransitoAggregates option
     \<Rightarrow> (ChartRow list, unit) panel_state \<Rightarrow> (ChartRow list, unit) panel_state" where
  "transitos_jsonSettled pf isMounted outcome st =
     (case outcome of
        Inl err \<Rightarrow> catchBlock isMounted err st
      | Inr (aggregatesConoma, aggregatesLosAngeles) \<Rightarrow>
          finallyBlock isMounted
            (whenMounted isMounted
               (setError None
                  \<circ> setData (transitos_result pf aggregatesConoma aggregatesLosAngeles)) st))"

subsection \<open>The fetch effect after a change of the filters\<close>

text \<open>
  A render in which the filter variables of a panel have gone from \<open>before\<close> to
  \<open>after\<close>: the effect is run on the new values when a dependency has changed (\<open>Some\<close>
  of what its run gives), and is not run otherwise (\<open>None\<close>).
\<close>

definition onFiltersChange :: "('f \<Rightarrow> 'deps) \<Rightarrow> ('f \<Rightarrow> 'r) \<Rightarrow> 'f \<Rightarrow> 'f \<Rightarrow> 'r option" where
  "onFiltersChange deps effect before after =
     (if effectRuns (deps before) (deps after) then Some (effect after) else None)"

text \<open>
  Each panel with its filter variables and the dependency array of its effect:
  \<^verbatim>\<open>[dateRange, peaje]\<close> in ChartEstadistico and ChartTemporal, \<^verbatim>\<open>[timeRange, peaje]\<close> in
  ChartCabinas, \<^verbatim>\<open>[timeRange, peaje]\<close> and \<^verbatim>\<open>[dateRange, peaje]\<close> in the two versions of
  TableFacturacion, which has \<^verbatim>\<open>turno\<close> as a third filter, \<^verbatim>\<open>[timeRange]\<close> and
  \<^verbatim>\<open>[dateRange]\<close> in the two versions of ChartRadialStacked, and \<^verbatim>\<open>[timeRange, turno]\<close> in
  ChartAreaInteractive and ChartTransito.
\<close>

definition estadistico_onChange ::
  "'d platform \<Rightarrow> real \<Rightarrow> Storage \<Rightarrow> (json, json) panel_state
     \<Rightarrow> 'd DateRange option \<times> string \<Rightarrow> 'd DateRange option \<times> string
     \<Rightarrow> ((json, json) panel_state \<times> Storage \<times> string list \<times> task) option" where
  "estadistico_onChange pf now storage st =
     onFiltersChange (\<lambda>(dateRange, peaje). (dateRange, peaje))
       (\<lambda>(dateRange, peaje). estadistico_fetchData_start pf now storage dateRange peaje st)"

definition cabinas_onChange ::
  "'d platform \<Rightarrow> real \<Rightarrow> Storage \<Rightarrow> (unit, json) panel_state
     \<Rightarrow> string \<times> string \<Rightarrow> string \<times> string
     \<Rightarrow> ((unit, json) panel_state \<times> Storage \<times> string list \<times> task) option" where
  "cabinas_onChange pf now storage st =
     onFiltersChange (\<lambda>(timeRange, peaje). (timeRange, peaje))
       (\<lambda>(timeRange, peaje). cabinas_fetchData_start pf now storage timeRange peaje st)"

definition temporal_onChange ::
  "'d platform \<Rightarrow> real \<Rightarrow> Storage \<Rightarrow> (unit, json) panel_state
     \<Rightarrow> 'd DateRange option \<times> string \<Rightarrow> 'd DateRange option \<times> string
     \<Rightarrow> ((unit, json) panel_state \<times> Storage \<times> string list \<times> task) option" where
  "temporal_onChange pf now storage st =
     onFiltersChange (\<lambda>(dateRange, peaje). (dateRange, peaje))
       (\<lambda>(dateRange, peaje). temporal_loadData_start pf now storage dateRange peaje st)"

definition facturacion_onChange ::
  "'d platform \<Rightarrow> (json, unit) panel_state
     \<Rightarrow> string \<times> string \<times> string \<Rightarrow> string \<times> string \<times> string
     \<Rightarrow> ((json, unit) panel_state \<times> string list \<times> task) option" where
  "facturacion_onChange pf st =
     onFiltersChange facturacion_deps
       (\<lambda>(timeRange, peaje, turno). facturacion_fetchData_start pf timeRange peaje st)"

definition facturacion_dateRange_onChange ::
  "'d platform \<Rightarrow> (json, unit) panel_state
     \<Rightarrow> 'd DateRange option \<times> string \<times> string \<Rightarrow> 'd DateRange option \<times> string \<times> string
     \<Rightarrow> ((json, unit) panel_state \<times> string list \<times> task) option" where
  "facturacion_dateRange_onChange pf st =
     onFiltersChange facturacion_dateRange_deps
       (\<lambda>(dateRange, peaje, turno). facturacion_dateRange_fetchData_start pf dateRange peaje st)"

definition ventasTag_onChange ::
  "'d platform \<Rightarrow> (unit, json) panel_state \<Rightarrow> string \<Rightarrow> string
     \<Rightarrow> ((unit, json) panel_state \<times> string list \<times> task) option" where
  "ventasTag_onChange pf st =
     onFiltersChange (\<lambda>timeRange. timeRange)
       (\<lambda>timeRange. ventasTag_fetchData_start pf timeRange st)"

definition ventasTag_dateRange_onChange ::
  "'d platform \<Rightarrow> (unit, json) panel_state \<Rightarrow> 'd DateRange option \<Rightarrow> 'd DateRange option
     \<Rightarrow> ((unit, json) panel_state \<times> string list \<times> task) option" where
  "ventasTag_dateRange_onChange pf st =
     onFiltersChange (\<lambda>dateRange. dateRange)
       (\<lambda>dateRange. ventasTag_dateRange_fetchData_start pf dateRange st)"

definition recaudacion_onChange ::
  "'d platform \<Rightarrow> (unit, json) panel_state \<Rightarrow> string \<times> string \<Rightarrow> string \<times> string
     \<Rightarrow> ((unit, json) panel_state \<times> string list \<times> task) option" where
  "recaudacion_onChange pf st =
     onFiltersChange (\<lambda>(timeRange, turno). (timeRange, turno))
       (\<lambda>(timeRange, turno). recaudacion_fetchData_start pf timeRange turno st)"

definition transitos_onChange ::
  "'d platform \<Rightarrow> (ChartRow list, unit) panel_state \<Rightarrow> string \<times> string \<Rightarrow> string \<times> string
     \<Rightarrow> ((ChartRow list, unit) panel_state \<times> string list \<times> task) option" where
  "transitos_onChange pf st =
     onFiltersChange (\<lambda>(timeRange, turno). (timeRange, turno))
       (\<lambda>(timeRange, turno). transitos_fetchData_start pf timeRange turno st)"

subsection \<open>A platform for concrete runs\<close>

text \<open>
  Dates are their \<^verbatim>\<open>yyyy-MM-dd\<close> strings, the search parameters are joined without
  escaping, numbers are printed in decimal, and the storage takes every write.
\<close>

fun joinParams :: "(string \<times> string) list \<Rightarrow> string" where
  "joinParams [] = []"
| "joinParams [(k, v)] = k @ ''='' @ v"
| "joinParams ((k, v) # rest) = k @ ''='' @ v @ ''&'' @ joinParams rest"

fun decimal :: "nat \<Rightarrow> string" where
  "decimal n =
     (if n < 10 then [char_of (48 + n)]
      else decimal (n div 10) @ [char_of (48 + n mod 10)])"

definition examplePlatform :: "string platform" where
  "examplePlatform =
     \<lparr>BASE_URL = ''https://api.test'',
      format_date = (\<lambda>d. d),
      searchParams_toString = joinParams,
      number_toString = (\<lambda>n. if n < 0 then ''-'' @ decimal (nat (- n)) else decimal (nat n)),
      date_getTime = (\<lambda>s. 0),
      coerce_number = (\<lambda>v. None),
      storage_accepts = (\<lambda>st k v. True)\<rparr>"

definition initialState :: "'d \<Rightarrow> 'a \<Rightarrow> ('d, 'a) panel_state" where
  "initialState d a = \<lparr>loading = True, error = None, data_state = d, aggregates_state = a\<rparr>"

section \<open>Properties of the fetch wrapper\<close>

lemma apiFetch_first_only:
  assumes "net s (originalCall baseUrl pathOrUrl options) = (Inr response, s1)"
    and "status response \<noteq> 401 \<or> shouldSkipRefresh (buildUrl baseUrl pathOrUrl) options"
  shows "apiFetch baseUrl net pathOrUrl options s
           = (Inr response, [originalCall baseUrl pathOrUrl options], s1)"
  using assms by (auto simp: apiFetch_def originalCall_def Let_def)

lemma apiFetch_rejected:
  assumes "net s (originalCall baseUrl pathOrUrl options) = (Inl e, s1)"
  shows "apiFetch baseUrl net pathOrUrl options s
           = (Inl e, [originalCall baseUrl pathOrUrl options], s1)"
  using assms by (simp add: apiFetch_def originalCall_def Let_def)

lemma apiFetch_refresh:
  assumes "net s (originalCall baseUrl pathOrUrl options) = (Inr response, s1)"
    and "status response = 401"
    and "\<not> shouldSkipRefresh (buildUrl baseUrl pathOrUrl) options"
  shows "apiFetch baseUrl net pathOrUrl options s =
     (case net s1 (refreshCall baseUrl) of
        (Inl e, s2) \<Rightarrow>
          (Inl e, [originalCall baseUrl pathOrUrl options, refreshCall baseUrl], s2)
      | (Inr refresh, s2) \<Rightarrow>
          if ok refresh
          then (fst (net s2 (originalCall baseUrl pathOrUrl options)),
                [originalCall baseUrl pathOrUrl options, refreshCall baseUrl,
                 originalCall baseUrl pathOrUrl options],
                snd (net s2 (originalCall baseUrl pathOrUrl options)))
          else (Inr response,
                [originalCall baseUrl pathOrUrl options, refreshCall baseUrl], s2))"
  using assms
  by (auto simp: apiFetch_def originalCall_def Let_def split: prod.splits sum.splits)

lemma shouldSkipRefresh_iff:
  "shouldSkipRefresh url options \<longleftrightarrow>
     skipAuthRefresh options = Some True \<or> includes_str url ''/auth/login''
       \<or> includes_str url ''/auth/refresh''"
  by (simp add: shouldSkipRefresh_def)

lemma apiFetch_calls:
  "fst (snd (apiFetch baseUrl net pathOrUrl options s)) \<in>
     {[originalCall baseUrl pathOrUrl options],
      [originalCall baseUrl pathOrUrl options, refreshCall baseUrl],
      [originalCall baseUrl pathOrUrl options, refreshCall baseUrl,
       originalCall baseUrl pathOrUrl options]}"
  by (auto simp: apiFetch_def originalCall_def Let_def split: prod.splits sum.splits)

lemma startsWith_prefix: "startsWith (t @ r) t"
  by (induction t) auto

lemma includes_str_suffix: "includes_str (p @ t) t"
proof (induction p)
  case Nil
  show ?case using startsWith_prefix [of t "[]"] by (cases t) auto
next
  case (Cons a p)
  then show ?case by simp
qed

lemma refreshCall_url: "call_url (refreshCall baseUrl) = baseUrl @ ''/auth/refresh''"
  by (simp add: refreshCall_def buildUrl_def)

text \<open>A request that is not excluded from the refresh is not the refresh call itself.\<close>

lemma originalCall_not_refreshCall:
  assumes "\<not> includes_str (buildUrl baseUrl pathOrUrl) ''/auth/refresh''"
  shows "originalCall baseUrl pathOrUrl options \<noteq> refreshCall baseUrl"
proof
  assume "originalCall baseUrl pathOrUrl options = refreshCall baseUrl"
  then have "call_url (originalCall baseUrl pathOrUrl options) = call_url (refreshCall baseUrl)"
    by simp
  then have "buildUrl baseUrl pathOrUrl = baseUrl @ ''/auth/refresh''"
    by (simp add: originalCall_def refreshCall_url)
  with assms show False by (simp add: includes_str_suffix)
qed

text \<open>
  C1, as the code has it. A first call that is rejected rejects \<^verbatim>\<open>apiFetch\<close>. A first
  response that is not a 401, or a request to \<^verbatim>\<open>/auth/login\<close> or \<^verbatim>\<open>/auth/refresh\<close>, or
  one with \<^verbatim>\<open>skipAuthRefresh\<close> set, comes back as it is, after that one call. A 401 with
  none of these exclusions is followed by exactly one \<^verbatim>\<open>POST\<close> to \<^verbatim>\<open>/auth/refresh\<close>,
  whatever becomes of it: when the refresh is answered and \<^verbatim>\<open>ok\<close>, the original request
  is sent once more and the outcome of that replay is the result; when it is answered and
  not \<^verbatim>\<open>ok\<close>, the original 401 response is the result; when the refresh call is rejected,
  \<^verbatim>\<open>apiFetch\<close> is rejected with its exception and the 401 response is not returned.
  Whatever the network does, the calls made are the original request, then at most the
  refresh, then at most one replay.
\<close>

theorem apiFetch_refresh_and_replay_once:
  "(\<forall>err s1.
      net s (originalCall baseUrl pathOrUrl options) = (Inl err, s1) \<longrightarrow>
        apiFetch baseUrl net pathOrUrl options s
          = (Inl err, [originalCall baseUrl pathOrUrl options], s1))
   \<and> (\<forall>response s1.
      net s (originalCall baseUrl pathOrUrl options) = (Inr response, s1) \<longrightarrow>
        (status response \<noteq> 401
           \<or> includes_str (buildUrl baseUrl pathOrUrl) ''/auth/login''
           \<or> includes_str (buildUrl baseUrl pathOrUrl) ''/auth/refresh''
           \<or> skipAuthRefresh options = Some True
         \<longrightarrow> apiFetch baseUrl net pathOrUrl options s
               = (Inr response, [originalCall baseUrl pathOrUrl options], s1))
      \<and> (status response = 401
           \<and> \<not> includes_str (buildUrl baseUrl pathOrUrl) ''/auth/login''
           \<and> \<not> includes_str (buildUrl baseUrl pathOrUrl) ''/auth/refresh''
           \<and> skipAuthRefresh options \<noteq> Some True
         \<longrightarrow> (\<forall>refresh s2.
               net s1 (refreshCall baseUrl) = (Inr refresh, s2) \<longrightarrow>
                 (ok refresh \<longrightarrow>
                    apiFetch baseUrl net pathOrUrl options s
                      = (fst (net s2 (originalCall baseUrl pathOrUrl options)),
                         [originalCall baseUrl pathOrUrl options, refreshCall baseUrl,
                          originalCall baseUrl pathOrUrl options],
                         snd (net s2 (originalCall baseUrl pathOrUrl options))))
               \<and> (\<not> ok refresh \<longrightarrow>
                    apiFetch baseUrl net pathOrUrl options s
                      = (Inr response,
                         [originalCall baseUrl pathOrUrl options, refreshCall baseUrl],
                         s2)))
           \<and> (\<forall>err s2.
               net s1 (refreshCall baseUrl) = (Inl err, s2) \<longrightarrow>
                 apiFetch baseUrl net pathOrUrl options s
                   = (Inl err,
                      [originalCall baseUrl pathOrUrl options, refreshCall baseUrl], s2))
           \<and> length (filter (\<lambda>call. call = refreshCall baseUrl)
                 (fst (snd (apiFetch baseUrl net pathOrUrl options s)))) = 1))
   \<and> http_method (call_init (refreshCall baseUrl)) = Some ''POST''
   \<and> call_url (refreshCall baseUrl) = baseUrl @ ''/auth/refresh''
   \<and> fst (snd (apiFetch baseUrl net pathOrUrl options s)) \<in>
       {[originalCall baseUrl pathOrUrl options],
        [originalCall baseUrl pathOrUrl options, refreshCall baseUrl],
        [originalCall baseUrl pathOrUrl options, refreshCall baseUrl,
         originalCall baseUrl pathOrUrl options]}"
proof (intro conjI allI impI)
  fix err s1
  assume "net s (originalCall baseUrl pathOrUrl options) = (Inl err, s1)"
  then show "apiFetch baseUrl net pathOrUrl options s
      = (Inl err, [originalCall baseUrl pathOrUrl options], s1)"
    by (rule apiFetch_rejected [where net = net and s = s])
next
  fix response s1
  assume first: "net s (originalCall baseUrl pathOrUrl options) = (Inr response, s1)"
    and "status response \<noteq> 401
       \<or> includes_str (buildUrl baseUrl pathOrUrl) ''/auth/login''
       \<or> includes_str (buildUrl baseUrl pathOrUrl) ''/auth/refresh''
       \<or> skipAuthRefresh options = Some True"
  then have "status response \<noteq> 401 \<or> shouldSkipRefresh (buildUrl baseUrl pathOrUrl) options"
    by (auto simp: shouldSkipRefresh_iff)
  then show "apiFetch baseUrl net pathOrUrl options s
      = (Inr response, [originalCall baseUrl pathOrUrl options], s1)"
    by (rule apiFetch_first_only [where net = net and s = s, OF first])
next
  fix response s1 refresh s2
  assume first: "net s (originalCall baseUrl pathOrUrl options) = (Inr response, s1)"
    and unauth: "status response = 401
       \<and> \<not> includes_str (buildUrl baseUrl pathOrUrl) ''/auth/login''
       \<and> \<not> includes_str (buildUrl baseUrl pathOrUrl) ''/auth/refresh''
       \<and> skipAuthRefresh options \<noteq> Some True"
    and second: "net s1 (refreshCall baseUrl) = (Inr refresh, s2)"
    and "ok refresh"
  from unauth have st: "status response = 401"
    and noskip: "\<not> shouldSkipRefresh (buildUrl baseUrl pathOrUrl) options"
    by (auto simp: shouldSkipRefresh_iff)
  from second \<open>ok refresh\<close>
  show "apiFetch baseUrl net pathOrUrl options s
      = (fst (net s2 (originalCall baseUrl pathOrUrl options)),
         [originalCall baseUrl pathOrUrl options, refreshCall baseUrl,
          originalCall baseUrl pathOrUrl options],
         snd (net s2 (originalCall baseUrl pathOrUrl options)))"
    by (simp add: apiFetch_refresh [where net = net and s = s, OF first st noskip])
next
  fix response s1 refresh s2
  assume first: "net s (originalCall baseUrl pathOrUrl options) = (Inr response, s1)"
    and unauth: "status response = 401
       \<and> \<not> includes_str (buildUrl baseUrl pathOrUrl) ''/auth/login''
       \<and> \<not> includes_str (buildUrl baseUrl pathOrUrl) ''/auth/refresh''
       \<and> skipAuthRefresh options \<noteq> Some True"
    and second: "net s1 (refreshCall baseUrl) = (Inr refresh, s2)"
    and "\<not> ok refresh"
  from unauth have st: "status response = 401"
    and noskip: "\<not> shouldSkipRefresh (buildUrl baseUrl pathOrUrl) options"
    by (auto simp: shouldSkipRefresh_iff)
  from second \<open>\<not> ok refresh\<close>
  show "apiFetch baseUrl net pathOrUrl options s
      = (Inr response, [originalCall baseUrl pathOrUrl options, refreshCall baseUrl], s2)"
    by (simp add: apiFetch_refresh [where net = net and s = s, OF first st noskip])
next
  fix response s1 err s2
  assume first: "net s (originalCall baseUrl pathOrUrl options) = (Inr response, s1)"
    and unauth: "status response = 401
       \<and> \<not> includes_str (buildUrl baseUrl pathOrUrl) ''/auth/login''
       \<and> \<not> includes_str (buildUrl baseUrl pathOrUrl) ''/auth/refresh''
       \<and> skipAuthRefresh options \<noteq> Some True"
    and second: "net s1 (refreshCall baseUrl) = (Inl err, s2)"
  from unauth have st: "status response = 401"
    and noskip: "\<not> shouldSkipRefresh (buildUrl baseUrl pathOrUrl) options"
    by (auto simp: shouldSkipRefresh_iff)
  from second
  show "apiFetch baseUrl net pathOrUrl options s
      = (Inl err, [originalCall baseUrl pathOrUrl options, refreshCall baseUrl], s2)"
    by (simp add: apiFetch_refresh [where net = net and s = s, OF first st noskip])
next
  fix response s1
  assume first: "net s (originalCall baseUrl pathOrUrl options) = (Inr response, s1)"
    and unauth: "status response = 401
       \<and> \<not> includes_str (buildUrl baseUrl pathOrUrl) ''/auth/login''
       \<and> \<not> includes_str (buildUrl baseUrl pathOrUrl) ''/auth/refresh''
       \<and> skipAuthRefresh options \<noteq> Some True"
  from unauth have st: "status response = 401"
    and noskip: "\<not> shouldSkipRefresh (buildUrl baseUrl pathOrUrl) options"
    by (auto simp: shouldSkipRefresh_iff)
  from unauth have differ: "originalCall baseUrl pathOrUrl options \<noteq> refreshCall baseUrl"
    by (simp add: originalCall_not_refreshCall)
  then show "length (filter (\<lambda>call. call = refreshCall baseUrl)
      (fst (snd (apiFetch baseUrl net pathOrUrl options s)))) = 1"
    by (simp add: apiFetch_refresh [where net = net and s = s, OF first st noskip]
        split: prod.splits sum.splits)
next
  show "http_method (call_init (refreshCall baseUrl)) = Some ''POST''"
    by (simp add: refreshCall_def)
next
  show "call_url (refreshCall baseUrl) = baseUrl @ ''/auth/refresh''"
    by (rule refreshCall_url)
next
  show "fst (snd (apiFetch baseUrl net pathOrUrl options s)) \<in>
       {[originalCall baseUrl pathOrUrl options],
        [originalCall baseUrl pathOrUrl options, refreshCall baseUrl],
        [originalCall baseUrl pathOrUrl options, refreshCall baseUrl,
         originalCall baseUrl pathOrUrl options]}"
    by (rule apiFetch_calls)
qed

text \<open>
  Four runs against a scripted network: a first response that is not a 401; a 401, a
  refresh that is \<^verbatim>\<open>ok\<close> and the replay; a 401 and a refresh that is not \<^verbatim>\<open>ok\<close>; a 401
  and a refresh that is rejected.
\<close>

theorem apiFetch_refresh_and_replay_once_witness:
  "apiFetch ''https://api.test'' scripted ''/facturacion'' noOptions
      [Inr \<lparr>status = 200, statusText = ''OK'', ok = True, resp_body = ''rows''\<rparr>]
     = (Inr \<lparr>status = 200, statusText = ''OK'', ok = True, resp_body = ''rows''\<rparr>,
        [originalCall ''https://api.test'' ''/facturacion'' noOptions], [])
   \<and> apiFetch ''https://api.test'' scripted ''/facturacion'' noOptions
      [Inr \<lparr>status = 401, statusText = ''Unauthorized'', ok = False, resp_body = ''expired''\<rparr>,
       Inr \<lparr>status = 200, statusText = ''OK'', ok = True, resp_body = ''refreshed''\<rparr>,
       Inr \<lparr>status = 200, statusText = ''OK'', ok = True, resp_body = ''rows''\<rparr>]
     = (Inr \<lparr>status = 200, statusText = ''OK'', ok = True, resp_body = ''rows''\<rparr>,
        [originalCall ''https://api.test'' ''/facturacion'' noOptions,
         refreshCall ''https://api.test'',
         originalCall ''https://api.test'' ''/facturacion'' noOptions], [])
   \<and> apiFetch ''https://api.test'' scripted ''/facturacion'' noOptions
      [Inr \<lparr>status = 401, statusText = ''Unauthorized'', ok = False, resp_body = ''expired''\<rparr>,
       Inr \<lparr>status = 401, statusText = ''Unauthorized'', ok = False,
            resp_body = ''no session''\<rparr>]
     = (Inr \<lparr>status = 401, statusText = ''Unauthorized'', ok = False, resp_body = ''expired''\<rparr>,
        [originalCall ''https://api.test'' ''/facturacion'' noOptions,
         refreshCall ''https://api.test''], [])
   \<and> apiFetch ''https://api.test'' scripted ''/facturacion'' noOptions
      [Inr \<lparr>status = 401, statusText = ''Unauthorized'', ok = False, resp_body = ''expired''\<rparr>,
       Inl (NetworkError ''Failed to fetch'')]
     = (Inl (NetworkError ''Failed to fetch''),
        [originalCall ''https://api.test'' ''/facturacion'' noOptions,
         refreshCall ''https://api.test''], [])"
  using
    apiFetch_refresh_and_replay_once [of scripted
      "[Inr \<lparr>status = 200, statusText = ''OK'', ok = True, resp_body = ''rows''\<rparr>]"
      "''https://api.test''" "''/facturacion''" noOptions]
    apiFetch_refresh_and_replay_once [of scripted
      "[Inr \<lparr>status = 401, statusText = ''Unauthorized'', ok = False, resp_body = ''expired''\<rparr>,
        Inr \<lparr>status = 200, statusText = ''OK'', ok = True, resp_body = ''refreshed''\<rparr>,
        Inr \<lparr>status = 200, statusText = ''OK'', ok = True, resp_body = ''rows''\<rparr>]"
      "''https://api.test''" "''/facturacion''" noOptions]
    apiFetch_refresh_and_replay_once [of scripted
      "[Inr \<lparr>status = 401, statusText = ''Unauthorized'', ok = False, resp_body = ''expired''\<rparr>,
        Inr \<lparr>status = 401, statusText = ''Unauthorized'', ok = False,
             resp_body = ''no session''\<rparr>]"
      "''https://api.test''" "''/facturacion''" noOptions]
    apiFetch_refresh_and_replay_once [of scripted
      "[Inr \<lparr>status = 401, statusText = ''Unauthorized'', ok = False, resp_body = ''expired''\<rparr>,
        Inl (NetworkError ''Failed to fetch'')]"
      "''https://api.test''" "''/facturacion''" noOptions]
  by (simp add: buildUrl_def noOptions_def)

text \<open>
  The claim as the specification words it, ``when the refresh fails, the original 401
  response is returned'', fails when the refresh fails by being rejected: the first call
  is answered with a 401, the call to \<^verbatim>\<open>/auth/refresh\<close> is rejected by the network, and
  \<^verbatim>\<open>apiFetch\<close>, which has no \<^verbatim>\<open>try\<close> around it, is rejected with that exception; the
  401 response is not what the caller gets.
\<close>

theorem apiFetch_refresh_and_replay_once_counterexample:
  "apiFetch ''https://api.test'' scripted ''/facturacion'' noOptions
      [Inr \<lparr>status = 401, statusText = ''Unauthorized'', ok = False, resp_body = ''expired''\<rparr>,
       Inl (NetworkError ''Failed to fetch'')]
     = (Inl (NetworkError ''Failed to fetch''),
        [originalCall ''https://api.test'' ''/facturacion'' noOptions,
         refreshCall ''https://api.test''], [])
   \<and> fst (apiFetch ''https://api.test'' scripted ''/facturacion'' noOptions
      [Inr \<lparr>status = 401, statusText = ''Unauthorized'', ok = False, resp_body = ''expired''\<rparr>,
       Inl (NetworkError ''Failed to fetch'')])
     \<noteq> Inr \<lparr>status = 401, statusText = ''Unauthorized'', ok = False, resp_body = ''expired''\<rparr>"
  by (simp add: apiFetch_def originalCall_def refreshCall_def shouldSkipRefresh_def
      buildUrl_def noOptions_def Let_def)

text \<open>
  C8. A request whose URL contains \<^verbatim>\<open>/auth/login\<close> or \<^verbatim>\<open>/auth/refresh\<close>, or whose options
  set \<^verbatim>\<open>skipAuthRefresh\<close>, makes exactly one call, the request itself, whatever its
  status: the outcome of that call is the result, and no refresh call follows, so a 401
  from the login or refresh endpoint cannot start a chain of refreshes.
\<close>

theorem apiFetch_never_refreshes_excluded:
  "includes_str (buildUrl baseUrl pathOrUrl) ''/auth/login''
     \<or> includes_str (buildUrl baseUrl pathOrUrl) ''/auth/refresh''
     \<or> skipAuthRefresh options = Some True
   \<Longrightarrow> apiFetch baseUrl net pathOrUrl options s
       = (fst (net s (originalCall baseUrl pathOrUrl options)),
          [originalCall baseUrl pathOrUrl options],
          snd (net s (originalCall baseUrl pathOrUrl options)))"
  by (auto simp: apiFetch_def originalCall_def Let_def shouldSkipRefresh_iff
      split: prod.splits sum.splits)

theorem apiFetch_never_refreshes_excluded_witness:
  "includes_str (buildUrl '''' ''/auth/login'') ''/auth/login''
   \<and> apiFetch '''' scripted ''/auth/login''
        (noOptions\<lparr>http_method := Some ''POST'', skipAuthRefresh := Some True\<rparr>)
        [Inr \<lparr>status = 401, statusText = ''Unauthorized'', ok = False, resp_body = ''bad password''\<rparr>,
         Inr \<lparr>status = 200, statusText = ''OK'', ok = True, resp_body = ''refreshed''\<rparr>]
     = (Inr \<lparr>status = 401, statusText = ''Unauthorized'', ok = False, resp_body = ''bad password''\<rparr>,
        [originalCall '''' ''/auth/login''
           (noOptions\<lparr>http_method := Some ''POST'', skipAuthRefresh := Some True\<rparr>)],
        [Inr \<lparr>status = 200, statusText = ''OK'', ok = True, resp_body = ''refreshed''\<rparr>])"
  using apiFetch_never_refreshes_excluded [of "''''" "''/auth/login''"
      "noOptions\<lparr>http_method := Some ''POST'', skipAuthRefresh := Some True\<rparr>" scripted
      "[Inr \<lparr>status = 401, statusText = ''Unauthorized'', ok = False, resp_body = ''bad password''\<rparr>,
        Inr \<lparr>status = 200, statusText = ''OK'', ok = True, resp_body = ''refreshed''\<rparr>]"]
  by (simp add: buildUrl_def)

section \<open>Properties of the route middleware\<close>

lemma startsWith_iff: "startsWith s t \<longleftrightarrow> (\<exists>r. s = t @ r)"
  by (induction s t rule: startsWith.induct) auto

lemma PUBLIC_FILE_at_iff:
  "PUBLIC_FILE_at s \<longleftrightarrow> (\<exists>ext. s = CHR ''.'' # ext \<and> ext \<noteq> [] \<and> list_all word_char ext)"
  by (cases s) auto

lemma PUBLIC_FILE_test_iff:
  "PUBLIC_FILE_test s \<longleftrightarrow>
     (\<exists>stem ext. s = stem @ CHR ''.'' # ext \<and> ext \<noteq> [] \<and> list_all word_char ext)"
proof (induction s)
  case Nil
  show ?case by simp
next
  case (Cons c cs)
  show ?case
  proof
    assume "PUBLIC_FILE_test (c # cs)"
    then consider "PUBLIC_FILE_at (c # cs)" | "PUBLIC_FILE_test cs" by auto
    then show "\<exists>stem ext. c # cs = stem @ CHR ''.'' # ext \<and> ext \<noteq> [] \<and> list_all word_char ext"
    proof cases
      case 1
      then obtain ext where "c # cs = [] @ CHR ''.'' # ext" "ext \<noteq> []" "list_all word_char ext"
        by (auto simp: PUBLIC_FILE_at_iff)
      then show ?thesis by blast
    next
      case 2
      with Cons.IH obtain stem ext
        where "cs = stem @ CHR ''.'' # ext" "ext \<noteq> []" "list_all word_char ext" by blast
      then have "c # cs = (c # stem) @ CHR ''.'' # ext" by simp
      with \<open>ext \<noteq> []\<close> \<open>list_all word_char ext\<close> show ?thesis by blast
    qed
  next
    assume "\<exists>stem ext. c # cs = stem @ CHR ''.'' # ext \<and> ext \<noteq> [] \<and> list_all word_char ext"
    then obtain stem ext
      where eq: "c # cs = stem @ CHR ''.'' # ext" and ext: "ext \<noteq> []" "list_all word_char ext"
      by blast
    show "PUBLIC_FILE_test (c # cs)"
    proof (cases stem)
      case Nil
      with eq ext have "PUBLIC_FILE_at (c # cs)" by (auto simp: PUBLIC_FILE_at_iff)
      then show ?thesis by simp
    next
      case (Cons d stem')
      with eq have "cs = stem' @ CHR ''.'' # ext" by simp
      with ext Cons.IH have "PUBLIC_FILE_test cs" by blast
      then show ?thesis by simp
    qed
  qed
qed

text \<open>
  C2. A request whose pathname starts with \<^verbatim>\<open>/login\<close>, \<^verbatim>\<open>/auth\<close> or \<^verbatim>\<open>/_astro\<close>, or ends
  in a file extension (a dot followed by one or more word characters), is passed on.
  Every other request is redirected to \<^verbatim>\<open>/login\<close> exactly when the \<^verbatim>\<open>access_token\<close>
  cookie is absent or empty, and passed on when the cookie holds a non-empty value.
\<close>

theorem onRequest_gate:
  "onRequest pathname cookies =
     (if (\<exists>rest. pathname = ''/login'' @ rest) \<or> (\<exists>rest. pathname = ''/auth'' @ rest)
         \<or> (\<exists>rest. pathname = ''/_astro'' @ rest)
         \<or> (\<exists>stem ext. pathname = stem @ CHR ''.'' # ext \<and> ext \<noteq> []
               \<and> list_all word_char ext)
      then Next
      else if cookies ''access_token'' = None \<or> cookies ''access_token'' = Some ''''
      then Redirect ''/login''
      else Next)"
  unfolding onRequest_def startsWith_iff PUBLIC_FILE_test_iff
  by (auto simp: Let_def split: option.splits)

section \<open>Properties of the login form\<close>

text \<open>
  C10. When the trimmed \<^verbatim>\<open>usuario\<close> or the trimmed \<^verbatim>\<open>clave\<close> is empty, the submit handler
  makes no network call: it sets the error message and returns, the network is left as
  it was, no redirect is scheduled, and \<^verbatim>\<open>loading\<close> and \<^verbatim>\<open>success\<close> keep their values.
\<close>

theorem handleSubmit_empty_field:
  "trim (case formData ''usuario'' of None \<Rightarrow> [] | Some v \<Rightarrow> v) = []
     \<or> trim (case formData ''clave'' of None \<Rightarrow> [] | Some v \<Rightarrow> v) = []
   \<Longrightarrow> handleSubmit baseUrl net formData st s
         = (st\<lparr>error := Some ''Ingresa usuario y clave para continuar.''\<rparr>, [], s, None)
       \<and> loading (fst (handleSubmit baseUrl net formData st s)) = loading st
       \<and> success (fst (handleSubmit baseUrl net formData st s)) = success st"
  by (auto simp: handleSubmit_def field_value_def Let_def)

theorem handleSubmit_empty_field_witness:
  "trim (case [''usuario'' \<mapsto> ''admin'', ''clave'' \<mapsto> ''  ''] ''clave'' of
           None \<Rightarrow> [] | Some v \<Rightarrow> v) = []
   \<and> handleSubmit ''https://api.test'' scripted
        [''usuario'' \<mapsto> ''admin'', ''clave'' \<mapsto> ''  '']
        \<lparr>loading = False, error = None, success = False\<rparr>
        [Inr \<lparr>status = 200, statusText = ''OK'', ok = True, resp_body = ''session''\<rparr>]
     = (\<lparr>loading = False, error = Some ''Ingresa usuario y clave para continuar.'',
         success = False\<rparr>,
        [],
        [Inr \<lparr>status = 200, statusText = ''OK'', ok = True, resp_body = ''session''\<rparr>],
        None)"
  using handleSubmit_empty_field [of "[''usuario'' \<mapsto> ''admin'', ''clave'' \<mapsto> ''  '']"
      "''https://api.test''" scripted "\<lparr>loading = False, error = None, success = False\<rparr>"
      "[Inr \<lparr>status = 200, statusText = ''OK'', ok = True, resp_body = ''session''\<rparr>]"]
  by (simp add: trim_def white_space_def)

section \<open>Properties of the response caches\<close>

lemma expired_number:
  "expired toNumber now (Some (JNum ts)) \<longleftrightarrow> now - ts > 30 * 60 * 1000"
  by (simp add: expired_def CACHE_EXPIRY_def)

lemma estadistico_getCachedData_object:
  assumes "getItem st (estadistico_CACHE_PREFIX @ key) = Some (JsonText (JObj props))"
  shows "estadistico_getCachedData toNumber now st key =
     (if expired toNumber now (map_of props ''timestamp'')
      then (None, removeItem st (estadistico_CACHE_PREFIX @ key))
      else (case map_of props ''data'' of
          Some (JArr rows) \<Rightarrow>
            (Some \<lparr>data = JArr rows,
               aggregates = Some (orNull (map_of props ''aggregates''))\<rparr>, st)
        | _ \<Rightarrow> (None, st)))"
  using assms by (simp add: estadistico_getCachedData_def)

lemma cabinas_getCachedData_object:
  assumes "getItem st (cabinas_CACHE_PREFIX @ key) = Some (JsonText (JObj props))"
  shows "cabinas_getCachedData toNumber now st key =
     (if expired toNumber now (map_of props ''timestamp'')
      then (JNull, removeItem st (cabinas_CACHE_PREFIX @ key))
      else (orNull (map_of props ''aggregates''), st))"
  using assms by (simp add: cabinas_getCachedData_def)

lemma temporal_getCachedData_object:
  assumes "getItem st key = Some (JsonText (JObj props))"
  shows "temporal_getCachedData toNumber now st key =
     (if expired toNumber now (map_of props ''timestamp'')
      then (JNull, removeItem st key)
      else (orNull (map_of props ''aggregates''), st))"
  using assms by (simp add: temporal_getCachedData_def)

text \<open>
  C3. In each of the three caches (statistics, booths, time of day), for every key under
  which an entry with a numeric timestamp is stored: when the timestamp is more than
  30 * 60 * 1000 milliseconds older than the current time, \<^verbatim>\<open>getCachedData\<close> returns null and
  the entry is removed from the storage; when the entry is at most that old and
  well-formed (its data is an array in the statistics cache; it has its aggregates in the
  other two), \<^verbatim>\<open>getCachedData\<close> returns the stored payload and leaves the storage as it is.
\<close>

theorem getCachedData_thirty_minutes:
  "(getItem st (estadistico_CACHE_PREFIX @ key) = Some (JsonText (JObj props))
        \<and> map_of props ''timestamp'' = Some (JNum ts) \<longrightarrow>
      (now - ts > 30 * 60 * 1000 \<longrightarrow>
         estadistico_getCachedData toNumber now st key
           = (None, st(estadistico_CACHE_PREFIX @ key := None)))
      \<and> (now - ts \<le> 30 * 60 * 1000
           \<and> map_of props ''data'' = Some (JArr rows)
           \<and> map_of props ''aggregates'' = Some a \<longrightarrow>
         estadistico_getCachedData toNumber now st key
           = (Some \<lparr>data = JArr rows, aggregates = Some a\<rparr>, st)))
   \<and> (getItem st (cabinas_CACHE_PREFIX @ key) = Some (JsonText (JObj props))
        \<and> map_of props ''timestamp'' = Some (JNum ts) \<longrightarrow>
      (now - ts > 30 * 60 * 1000 \<longrightarrow>
         cabinas_getCachedData toNumber now st key
           = (JNull, st(cabinas_CACHE_PREFIX @ key := None)))
      \<and> (now - ts \<le> 30 * 60 * 1000 \<and> map_of props ''aggregates'' = Some a \<longrightarrow>
         cabinas_getCachedData toNumber now st key = (a, st)))
   \<and> (getItem st (getCacheKey key) = Some (JsonText (JObj props))
        \<and> map_of props ''timestamp'' = Some (JNum ts) \<longrightarrow>
      (now - ts > 30 * 60 * 1000 \<longrightarrow>
         temporal_getCachedData toNumber now st (getCacheKey key)
           = (JNull, st(getCacheKey key := None)))
      \<and> (now - ts \<le> 30 * 60 * 1000 \<and> map_of props ''aggregates'' = Some a \<longrightarrow>
         temporal_getCachedData toNumber now st (getCacheKey key) = (a, st)))"
proof (intro conjI impI)
  assume "getItem st (estadistico_CACHE_PREFIX @ key) = Some (JsonText (JObj props))
      \<and> map_of props ''timestamp'' = Some (JNum ts)"
    and "now - ts > 30 * 60 * 1000"
  then show "estadistico_getCachedData toNumber now st key
      = (None, st(estadistico_CACHE_PREFIX @ key := None))"
    by (simp add: estadistico_getCachedData_object expired_number removeItem_def)
next
  assume "getItem st (estadistico_CACHE_PREFIX @ key) = Some (JsonText (JObj props))
      \<and> map_of props ''timestamp'' = Some (JNum ts)"
    and "now - ts \<le> 30 * 60 * 1000
      \<and> map_of props ''data'' = Some (JArr rows) \<and> map_of props ''aggregates'' = Some a"
  then show "estadistico_getCachedData toNumber now st key
      = (Some \<lparr>data = JArr rows, aggregates = Some a\<rparr>, st)"
    by (simp add: estadistico_getCachedData_object expired_number)
next
  assume "getItem st (cabinas_CACHE_PREFIX @ key) = Some (JsonText (JObj props))
      \<and> map_of props ''timestamp'' = Some (JNum ts)"
    and "now - ts > 30 * 60 * 1000"
  then show "cabinas_getCachedData toNumber now st key
      = (JNull, st(cabinas_CACHE_PREFIX @ key := None))"
    by (simp add: cabinas_getCachedData_object expired_number removeItem_def)
next
  assume "getItem st (cabinas_CACHE_PREFIX @ key) = Some (JsonText (JObj props))
      \<and> map_of props ''timestamp'' = Some (JNum ts)"
    and "now - ts \<le> 30 * 60 * 1000 \<and> map_of props ''aggregates'' = Some a"
  then show "cabinas_getCachedData toNumber now st key = (a, st)"
    by (simp add: cabinas_getCachedData_object expired_number)
next
  assume "getItem st (getCacheKey key) = Some (JsonText (JObj props))
      \<and> map_of props ''timestamp'' = Some (JNum ts)"
    and "now - ts > 30 * 60 * 1000"
  then show "temporal_getCachedData toNumber now st (getCacheKey key)
      = (JNull, st(getCacheKey key := None))"
    by (simp add: temporal_getCachedData_object expired_number removeItem_def)
next
  assume "getItem st (getCacheKey key) = Some (JsonText (JObj props))
      \<and> map_of props ''timestamp'' = Some (JNum ts)"
    and "now - ts \<le> 30 * 60 * 1000 \<and> map_of props ''aggregates'' = Some a"
  then show "temporal_getCachedData toNumber now st (getCacheKey key) = (a, st)"
    by (simp add: temporal_getCachedData_object expired_number)
qed

text \<open>
  Concrete entries, written at time 1000: read 30 minutes and one millisecond later, and
  read exactly 30 minutes later.
\<close>

theorem getCachedData_thirty_minutes_witness:
  "estadistico_getCachedData (\<lambda>v. None) 1801001
      [estadistico_CACHE_PREFIX @ ''sin-fecha-all'' \<mapsto>
         JsonText (JObj [(''data'', JArr [JStr ''row'']), (''aggregates'', JNull),
           (''timestamp'', JNum 1000)])]
      ''sin-fecha-all''
     = (None,
        [estadistico_CACHE_PREFIX @ ''sin-fecha-all'' \<mapsto>
           JsonText (JObj [(''data'', JArr [JStr ''row'']), (''aggregates'', JNull),
             (''timestamp'', JNum 1000)])]
        (estadistico_CACHE_PREFIX @ ''sin-fecha-all'' := None))
   \<and> estadistico_getCachedData (\<lambda>v. None) 1801000
      [estadistico_CACHE_PREFIX @ ''sin-fecha-all'' \<mapsto>
         JsonText (JObj [(''data'', JArr [JStr ''row'']), (''aggregates'', JNull),
           (''timestamp'', JNum 1000)])]
      ''sin-fecha-all''
     = (Some \<lparr>data = JArr [JStr ''row''], aggregates = Some JNull\<rparr>,
        [estadistico_CACHE_PREFIX @ ''sin-fecha-all'' \<mapsto>
           JsonText (JObj [(''data'', JArr [JStr ''row'']), (''aggregates'', JNull),
             (''timestamp'', JNum 1000)])])
   \<and> cabinas_getCachedData (\<lambda>v. None) 1801000
      [cabinas_CACHE_PREFIX @ ''ultimos7d-all'' \<mapsto>
         JsonText (JObj [(''aggregates'', JObj [(''totalCabinas'', JNum 12)]),
           (''timestamp'', JNum 1000)])]
      ''ultimos7d-all''
     = (JObj [(''totalCabinas'', JNum 12)],
        [cabinas_CACHE_PREFIX @ ''ultimos7d-all'' \<mapsto>
           JsonText (JObj [(''aggregates'', JObj [(''totalCabinas'', JNum 12)]),
             (''timestamp'', JNum 1000)])])
   \<and> temporal_getCachedData (\<lambda>v. None) 1801001
      [getCacheKey ''sin-fecha-1'' \<mapsto>
         JsonText (JObj [(''aggregates'', JObj []), (''timestamp'', JNum 1000)])]
      (getCacheKey ''sin-fecha-1'')
     = (JNull,
        [getCacheKey ''sin-fecha-1'' \<mapsto>
           JsonText (JObj [(''aggregates'', JObj []), (''timestamp'', JNum 1000)])]
        (getCacheKey ''sin-fecha-1'' := None))"
  using
    getCachedData_thirty_minutes [of
      "[estadistico_CACHE_PREFIX @ ''sin-fecha-all'' \<mapsto>
         JsonText (JObj [(''data'', JArr [JStr ''row'']), (''aggregates'', JNull),
           (''timestamp'', JNum 1000)])]"
      "''sin-fecha-all''"
      "[(''data'', JArr [JStr ''row'']), (''aggregates'', JNull), (''timestamp'', JNum 1000)]"
      1000 1801001 "\<lambda>v. None" "[JStr ''row'']" JNull]
    getCachedData_thirty_minutes [of
      "[estadistico_CACHE_PREFIX @ ''sin-fecha-all'' \<mapsto>
         JsonText (JObj [(''data'', JArr [JStr ''row'']), (''aggregates'', JNull),
           (''timestamp'', JNum 1000)])]"
      "''sin-fecha-all''"
      "[(''data'', JArr [JStr ''row'']), (''aggregates'', JNull), (''timestamp'', JNum 1000)]"
      1000 1801000 "\<lambda>v. None" "[JStr ''row'']" JNull]
    getCachedData_thirty_minutes [of
      "[cabinas_CACHE_PREFIX @ ''ultimos7d-all'' \<mapsto>
         JsonText (JObj [(''aggregates'', JObj [(''totalCabinas'', JNum 12)]),
           (''timestamp'', JNum 1000)])]"
      "''ultimos7d-all''"
      "[(''aggregates'', JObj [(''totalCabinas'', JNum 12)]), (''timestamp'', JNum 1000)]"
      1000 1801000 "\<lambda>v. None" "[]" "JObj [(''totalCabinas'', JNum 12)]"]
    getCachedData_thirty_minutes [of
      "[getCacheKey ''sin-fecha-1'' \<mapsto>
         JsonText (JObj [(''aggregates'', JObj []), (''timestamp'', JNum 1000)])]"
      "''sin-fecha-1''"
      "[(''aggregates'', JObj []), (''timestamp'', JNum 1000)]"
      1000 1801001 "\<lambda>v. None" "[]" "JObj []"]
  by (simp add: getItem_def)

lemma estadistico_setCachedData_stored:
  assumes "accepts st (estadistico_CACHE_PREFIX @ key)
       (JSON_stringify (JObj [(''data'', data payload),
          (''aggregates'', orNull (aggregates payload)), (''timestamp'', JNum t0)]))"
  shows "estadistico_setCachedData accepts t0 st key payload (estadistico_CACHE_PREFIX @ key)
     = Some (JsonText (JObj [(''data'', data payload),
          (''aggregates'', orNull (aggregates payload)), (''timestamp'', JNum t0)]))"
  using assms by (simp add: estadistico_setCachedData_def setItem_def JSON_stringify_def)

text \<open>
  C4. Round trip of the statistics cache. \<^verbatim>\<open>setCachedData(key, payload)\<close> is called at
  time \<open>t0\<close> with a payload whose data is an array, and the storage accepts the write.
  \<^verbatim>\<open>getCachedData(key)\<close> is called at a time \<open>t1\<close> no more than 30 minutes later, on a
  storage \<open>st'\<close> that still holds under that key what was written. It returns the
  payload that was stored, a missing or null \<^verbatim>\<open>aggregates\<close> being null, and leaves the
  storage as it is.
\<close>

theorem setCachedData_getCachedData_roundtrip:
  assumes "data payload = JArr rows"
    and "accepts st (estadistico_CACHE_PREFIX @ key)
       (JSON_stringify (JObj [(''data'', data payload),
          (''aggregates'', orNull (aggregates payload)), (''timestamp'', JNum t0)]))"
    and "st' (estadistico_CACHE_PREFIX @ key)
       = estadistico_setCachedData accepts t0 st key payload (estadistico_CACHE_PREFIX @ key)"
    and "t1 - t0 \<le> 30 * 60 * 1000"
  shows "estadistico_getCachedData toNumber t1 st' key
     = (Some \<lparr>data = data payload,
          aggregates = Some (case aggregates payload of None \<Rightarrow> JNull | Some v \<Rightarrow> v)\<rparr>, st')"
proof -
  have stored: "getItem st' (estadistico_CACHE_PREFIX @ key)
      = Some (JsonText (JObj [(''data'', data payload),
          (''aggregates'', orNull (aggregates payload)), (''timestamp'', JNum t0)]))"
    using assms(2,3) by (simp add: getItem_def estadistico_setCachedData_stored)
  have fresh: "\<not> expired toNumber t1 (Some (JNum t0))"
    using assms(4) by (simp add: expired_number)
  have "orNull (aggregates payload) = (case aggregates payload of None \<Rightarrow> JNull | Some v \<Rightarrow> v)"
    by (cases "aggregates payload") simp_all
  with fresh assms(1) show ?thesis
    by (simp add: estadistico_getCachedData_object [OF stored])
qed

theorem setCachedData_getCachedData_roundtrip_witness:
  "estadistico_getCachedData (\<lambda>v. None) 1801000
     (estadistico_setCachedData (\<lambda>st k v. True) 1000 Map.empty ''sin-fecha-all''
        \<lparr>data = JArr [JObj [(''CAT1'', JNum 3)]], aggregates = None\<rparr>)
     ''sin-fecha-all''
   = (Some \<lparr>data = JArr [JObj [(''CAT1'', JNum 3)]], aggregates = Some JNull\<rparr>,
      estadistico_setCachedData (\<lambda>st k v. True) 1000 Map.empty ''sin-fecha-all''
        \<lparr>data = JArr [JObj [(''CAT1'', JNum 3)]], aggregates = None\<rparr>)"
  using setCachedData_getCachedData_roundtrip [of
      "\<lparr>data = JArr [JObj [(''CAT1'', JNum 3)]], aggregates = None\<rparr>"
      "[JObj [(''CAT1'', JNum 3)]]" "\<lambda>st k v. True" Map.empty "''sin-fecha-all''" 1000
      "estadistico_setCachedData (\<lambda>st k v. True) 1000 Map.empty ''sin-fecha-all''
        \<lparr>data = JArr [JObj [(''CAT1'', JNum 3)]], aggregates = None\<rparr>"
      1801000 "\<lambda>v. None"]
  by simp

section \<open>Properties of the indicators\<close>

text \<open>
  C5. With no aggregates from the server (\<^verbatim>\<open>aggregates\<close> is null) the five indicators
  shown are those that \<^verbatim>\<open>computedKpis\<close> computes from the rows. With aggregates, each
  indicator is the field of that name of the aggregates, whatever the rows are: the
  computation from the rows is not used.
\<close>

theorem kpis_server_or_computed:
  "kpis rnd None rows = computedKpis rnd rows
   \<and> ingresoTotal (kpis rnd (Some a) rows) = ingresoTotal a
   \<and> vehiculosEfec (kpis rnd (Some a) rows) = vehiculosEfec a
   \<and> vehiculosExentos (kpis rnd (Some a) rows) = vehiculosExentos a
   \<and> vehiculosRfid100 (kpis rnd (Some a) rows) = vehiculosRfid100 a
   \<and> porcentajeExentos (kpis rnd (Some a) rows) = porcentajeExentos a
   \<and> kpis rnd (Some a) rows = kpis rnd (Some a) rows'"
  by (simp add: kpis_def)












text \<open>
  The percentage is 0 as well, and not the quotient, when the total is not a number: a
  row whose count is the not-a-number, as a missing field gives it.
\<close>

lemma js_add_NaN: "js_add rnd x NaN = NaN"
  by (cases x) simp_all

lemma computedKpis_total_NaN:
  "totalOf rnd (computedKpis rnd [(blankRow ''EFEC.'')\<lparr>CAT9 := NaN\<rparr>]) = NaN
   \<and> porcentajeExentos (computedKpis rnd [(blankRow ''EFEC.'')\<lparr>CAT9 := NaN\<rparr>]) = Fin 0"
  by (simp add: totalOf_def computedKpis_def reduce_def blankRow_def addVehiculos_def Let_def
      js_add_NaN)

section \<open>Properties of the data panels\<close>

lemma finallyBlock_unmounted: "finallyBlock False st = st"
  by (simp add: finallyBlock_def whenMounted_def)

lemma catchBlock_unmounted: "catchBlock False err st = st"
  by (simp add: catchBlock_def finallyBlock_def whenMounted_def)

lemma whenMounted_unmounted: "whenMounted False update st = st"
  by (simp add: whenMounted_def)

lemmas unmounted = finallyBlock_unmounted catchBlock_unmounted whenMounted_unmounted

text \<open>
  C7. In every data panel, when the cleanup of the effect has run, so that \<^verbatim>\<open>isMounted\<close> is
  false, a fetch that settles afterwards changes no state variable: whatever the response
  or the exception is, and whatever the body parses to, \<^verbatim>\<open>data\<close>, \<^verbatim>\<open>aggregates\<close>,
  \<^verbatim>\<open>error\<close> and \<^verbatim>\<open>loading\<close> are what they were (and the two panels that write their
  cache from \<^verbatim>\<open>fetchData\<close> leave the storage as it was). The panels are ChartEstadistico,
  ChartCabinas, ChartTemporal, both versions of TableFacturacion, both versions of
  ChartRadialStacked and ChartAreaInteractive, and ChartTransito.
\<close>

theorem stale_response_discarded:
  "fst (estadistico_fetchSettled pf False outcome stE) = stE
   \<and> estadistico_jsonSettled pf False now storage dateRange peaje parsed stE = (stE, storage)
   \<and> fst (cabinas_fetchSettled pf False outcome stA) = stA
   \<and> cabinas_jsonSettled pf False now storage timeRange peaje parsed stA = (stA, storage)
   \<and> fst (temporal_fetchSettled False outcome stA) = stA
   \<and> fst (temporal_jsonSettled pf False now storage dateRange peaje parsed stA) = stA
   \<and> temporal_resultSettled False parsed stA = stA
   \<and> fst (facturacion_fetchSettled pf False outcome stD) = stD
   \<and> facturacion_jsonSettled False parsed stD = stD
   \<and> fst (aggregatesPanel_fetchSettled pf False outcome stA) = stA
   \<and> aggregatesPanel_jsonSettled False parsed stA = stA
   \<and> fst (transitos_fetchSettled pf False both stT) = stT
   \<and> transitos_jsonSettled pf False bothParsed stT = stT"
proof (intro conjI)
  show "fst (estadistico_fetchSettled pf False outcome stE) = stE"
    by (simp add: estadistico_fetchSettled_def unmounted split: sum.splits)
  show "estadistico_jsonSettled pf False now storage dateRange peaje parsed stE = (stE, storage)"
    by (simp add: estadistico_jsonSettled_def unmounted split: sum.splits)
  show "fst (cabinas_fetchSettled pf False outcome stA) = stA"
    by (simp add: cabinas_fetchSettled_def unmounted split: sum.splits)
  show "cabinas_jsonSettled pf False now storage timeRange peaje parsed stA = (stA, storage)"
    by (simp add: cabinas_jsonSettled_def unmounted Let_def split: sum.splits)
  show "fst (temporal_fetchSettled False outcome stA) = stA"
    by (simp add: temporal_fetchSettled_def temporal_resultSettled_def unmounted
        split: sum.splits)
  show "temporal_resultSettled False parsed stA = stA"
    by (simp add: temporal_resultSettled_def unmounted split: sum.splits)
  then show "fst (temporal_jsonSettled pf False now storage dateRange peaje parsed stA) = stA"
    by (simp add: temporal_jsonSettled_def temporal_resultSettled_def unmounted
        split: sum.splits prod.splits)
  show "fst (facturacion_fetchSettled pf False outcome stD) = stD"
    by (simp add: facturacion_fetchSettled_def unmounted split: sum.splits)
  show "facturacion_jsonSettled False parsed stD = stD"
    by (simp add: facturacion_jsonSettled_def unmounted split: sum.splits)
  show "fst (aggregatesPanel_fetchSettled pf False outcome stA) = stA"
    by (simp add: aggregatesPanel_fetchSettled_def unmounted split: sum.splits)
  show "aggregatesPanel_jsonSettled False parsed stA = stA"
    by (simp add: aggregatesPanel_jsonSettled_def unmounted split: sum.splits)
  show "fst (transitos_fetchSettled pf False both stT) = stT"
    by (simp add: transitos_fetchSettled_def unmounted split: sum.splits prod.splits)
  show "transitos_jsonSettled pf False bothParsed stT = stT"
    by (simp add: transitos_jsonSettled_def unmounted split: sum.splits prod.splits)
qed

theorem stale_response_discarded_witness:
  "estadistico_jsonSettled examplePlatform False 5000 Map.empty None ''all''
      (Inr (JObj [(''data'', JArr [JStr ''row'']), (''aggregates'', JNull)]))
      (initialState (JArr []) JNull)
     = (initialState (JArr []) JNull, Map.empty)
   \<and> fst (transitos_fetchSettled examplePlatform False
        (Inr (\<lparr>status = 500, statusText = ''Internal Server Error'', ok = False,
                resp_body = ''body''\<rparr>,
              \<lparr>status = 200, statusText = ''OK'', ok = True, resp_body = ''body''\<rparr>))
        (initialState [] ()))
     = initialState [] ()
   \<and> facturacion_jsonSettled False
        (Inr (JObj [(''data'', JArr [JStr ''row'']), (''aggregates'', JNull)]))
        (initialState (JArr []) ())
     = initialState (JArr []) ()"
  using stale_response_discarded [where pf = examplePlatform and now = 5000
      and storage = Map.empty and dateRange = None and peaje = "''all''"
      and timeRange = "''7d''"
      and outcome = "Inl (NetworkError ''Failed to fetch'') :: exn + string Response"
      and parsed = "Inr (JObj [(''data'', JArr [JStr ''row'']), (''aggregates'', JNull)])"
      and stE = "initialState (JArr []) JNull"
      and stA = "initialState () JNull"
      and stD = "initialState (JArr []) ()"
      and both = "Inr (\<lparr>status = 500, statusText = ''Internal Server Error'', ok = False,
                resp_body = ''body''\<rparr>,
              \<lparr>status = 200, statusText = ''OK'', ok = True, resp_body = ''body''\<rparr>)"
      and stT = "initialState [] ()"
      and bothParsed = "Inr (None, None)"]
  by simp

text \<open>
  While the panel is mounted the same continuations do write: here the rows of a
  response are shown, and a response that is not \<^verbatim>\<open>ok\<close> becomes the error message.
\<close>

lemma facturacion_jsonSettled_mounted:
  "facturacion_jsonSettled True (Inr rows) st
     = st\<lparr>loading := False, error := None, data_state := rows\<rparr>"
  by (simp add: facturacion_jsonSettled_def finallyBlock_def whenMounted_def
      setLoading_def setError_def setData_def)

lemma facturacion_fetchSettled_mounted:
  "\<not> ok response \<Longrightarrow>
   facturacion_fetchSettled pf True (Inr response) st
     = (st\<lparr>loading := False,
            error := Some (''Error '' @ number_toString pf (status response))\<rparr>, Done)"
  by (simp add: facturacion_fetchSettled_def catchBlock_def finallyBlock_def whenMounted_def
      setLoading_def setError_def statusError_def)

section \<open>The fetch effect and the filters\<close>

lemma onFiltersChange_changed:
  "deps before \<noteq> deps after \<Longrightarrow> onFiltersChange deps effect before after = Some (effect after)"
  by (simp add: onFiltersChange_def effectRuns_def)

lemma onFiltersChange_unchanged:
  "deps before = deps after \<Longrightarrow> onFiltersChange deps effect before after = None"
  by (simp add: onFiltersChange_def effectRuns_def)

lemma estadistico_start_miss:
  assumes "fst (estadistico_getCachedData (coerce_number pf) now storage
      (estadistico_cacheKey pf dateRange peaje)) = None"
  shows "estadistico_fetchData_start pf now storage dateRange peaje st
     = (setLoading True st,
        snd (estadistico_getCachedData (coerce_number pf) now storage
          (estadistico_cacheKey pf dateRange peaje)),
        [endpointUrl pf estadistico_ENDPOINT (estadistico_params pf dateRange peaje)],
        AwaitFetch)"
  using assms by (auto simp: estadistico_fetchData_start_def Let_def split: prod.splits)

lemma estadistico_start_hit:
  assumes "fst (estadistico_getCachedData (coerce_number pf) now storage
      (estadistico_cacheKey pf dateRange peaje)) = Some cached"
  shows "estadistico_fetchData_start pf now storage dateRange peaje st
     = (st\<lparr>loading := False, error := None, data_state := data cached,
            aggregates_state := orNull (aggregates cached)\<rparr>,
        snd (estadistico_getCachedData (coerce_number pf) now storage
          (estadistico_cacheKey pf dateRange peaje)),
        [], Done)"
  using assms
  by (auto simp: estadistico_fetchData_start_def Let_def finallyBlock_def whenMounted_def
      setLoading_def setError_def setData_def setAggregates_def split: prod.splits)

lemma cabinas_start_miss:
  assumes "\<not> truthy (fst (cabinas_getCachedData (coerce_number pf) now storage
      (cabinas_cacheKey timeRange peaje)))"
  shows "cabinas_fetchData_start pf now storage timeRange peaje st
     = (setLoading True st,
        snd (cabinas_getCachedData (coerce_number pf) now storage
          (cabinas_cacheKey timeRange peaje)),
        [endpointUrl pf cabinas_ENDPOINT (cabinas_params timeRange peaje)],
        AwaitFetch)"
  using assms by (auto simp: cabinas_fetchData_start_def Let_def split: prod.splits)

lemma cabinas_start_hit:
  assumes "truthy (fst (cabinas_getCachedData (coerce_number pf) now storage
      (cabinas_cacheKey timeRange peaje)))"
  shows "cabinas_fetchData_start pf now storage timeRange peaje st
     = (st\<lparr>loading := False, error := None,
            aggregates_state := fst (cabinas_getCachedData (coerce_number pf) now storage
              (cabinas_cacheKey timeRange peaje))\<rparr>,
        snd (cabinas_getCachedData (coerce_number pf) now storage
          (cabinas_cacheKey timeRange peaje)),
        [], Done)"
  using assms
  by (auto simp: cabinas_fetchData_start_def Let_def finallyBlock_def whenMounted_def
      setLoading_def setError_def setAggregates_def split: prod.splits)

lemma temporal_start_miss:
  assumes "\<not> truthy (fst (temporal_getCachedData (coerce_number pf) now storage
      (temporal_cacheKey pf dateRange peaje)))"
  shows "temporal_loadData_start pf now storage dateRange peaje st
     = (setError None (setLoading True st),
        snd (temporal_getCachedData (coerce_number pf) now storage
          (temporal_cacheKey pf dateRange peaje)),
        [endpointUrl pf temporal_ENDPOINT (temporal_params pf dateRange peaje)],
        AwaitFetch)"
  using assms
  by (auto simp: temporal_loadData_start_def fetchTemporalAggregates_start_def Let_def
      split: prod.splits)

lemma temporal_start_hit:
  assumes "truthy (fst (temporal_getCachedData (coerce_number pf) now storage
      (temporal_cacheKey pf dateRange peaje)))"
  shows "temporal_loadData_start pf now storage dateRange peaje st
     = (setError None (setLoading True st),
        snd (temporal_getCachedData (coerce_number pf) now storage
          (temporal_cacheKey pf dateRange peaje)),
        [],
        AwaitValue (fst (temporal_getCachedData (coerce_number pf) now storage
          (temporal_cacheKey pf dateRange peaje))))"
  using assms
  by (auto simp: temporal_loadData_start_def fetchTemporalAggregates_start_def Let_def
      split: prod.splits)

text \<open>
  C6, as the code has it. In every data panel a change of a filter that is in the
  dependency array of the fetch effect (the date or time range, the toll station where the
  panel has one, and the shift in ChartAreaInteractive and ChartTransito) runs
  \<^verbatim>\<open>fetchData\<close> again on the new values. The run sets \<^verbatim>\<open>loading\<close> and calls \<^verbatim>\<open>fetch\<close>
  with the endpoint of the panel and the parameters of the new values, once (twice in
  ChartTransito, once for each station). The three panels with a cache, ChartEstadistico,
  ChartCabinas and ChartTemporal, do so when \<^verbatim>\<open>getCachedData\<close> has nothing for the new
  values, and make no request when it has a payload, which is then what they show
  (ChartTemporal once the promise of the cached payload has settled). The
  shift of TableFacturacion is not a dependency of its effect: a change of the shift
  alone runs nothing and requests nothing.
\<close>

theorem filter_change_refetches:
  "((dateRange, peaje) \<noteq> (dateRange', peaje') \<longrightarrow>
      estadistico_onChange pf now storage stE (dateRange, peaje) (dateRange', peaje')
        = Some (estadistico_fetchData_start pf now storage dateRange' peaje' stE)
      \<and> (fst (estadistico_getCachedData (coerce_number pf) now storage
              (estadistico_cacheKey pf dateRange' peaje')) = None \<longrightarrow>
           estadistico_fetchData_start pf now storage dateRange' peaje' stE
             = (setLoading True stE,
                snd (estadistico_getCachedData (coerce_number pf) now storage
                  (estadistico_cacheKey pf dateRange' peaje')),
                [endpointUrl pf estadistico_ENDPOINT (estadistico_params pf dateRange' peaje')],
                AwaitFetch))
      \<and> (\<forall>cached.
           fst (estadistico_getCachedData (coerce_number pf) now storage
              (estadistico_cacheKey pf dateRange' peaje')) = Some cached \<longrightarrow>
           estadistico_fetchData_start pf now storage dateRange' peaje' stE
             = (stE\<lparr>loading := False, error := None, data_state := data cached,
                    aggregates_state := orNull (aggregates cached)\<rparr>,
                snd (estadistico_getCachedData (coerce_number pf) now storage
                  (estadistico_cacheKey pf dateRange' peaje')),
                [], Done)))
   \<and> ((timeRange, peaje) \<noteq> (timeRange', peaje') \<longrightarrow>
      cabinas_onChange pf now storage stA (timeRange, peaje) (timeRange', peaje')
        = Some (cabinas_fetchData_start pf now storage timeRange' peaje' stA)
      \<and> (\<not> truthy (fst (cabinas_getCachedData (coerce_number pf) now storage
              (cabinas_cacheKey timeRange' peaje'))) \<longrightarrow>
           cabinas_fetchData_start pf now storage timeRange' peaje' stA
             = (setLoading True stA,
                snd (cabinas_getCachedData (coerce_number pf) now storage
                  (cabinas_cacheKey timeRange' peaje')),
                [endpointUrl pf cabinas_ENDPOINT (cabinas_params timeRange' peaje')],
                AwaitFetch))
      \<and> (truthy (fst (cabinas_getCachedData (coerce_number pf) now storage
              (cabinas_cacheKey timeRange' peaje'))) \<longrightarrow>
           cabinas_fetchData_start pf now storage timeRange' peaje' stA
             = (stA\<lparr>loading := False, error := None,
                    aggregates_state := fst (cabinas_getCachedData (coerce_number pf) now
                      storage (cabinas_cacheKey timeRange' peaje'))\<rparr>,
                snd (cabinas_getCachedData (coerce_number pf) now storage
                  (cabinas_cacheKey timeRange' peaje')),
                [], Done)))
   \<and> ((dateRange, peaje) \<noteq> (dateRange', peaje') \<longrightarrow>
      temporal_onChange pf now storage stA (dateRange, peaje) (dateRange', peaje')
        = Some (temporal_loadData_start pf now storage dateRange' peaje' stA)
      \<and> (\<not> truthy (fst (temporal_getCachedData (coerce_number pf) now storage
              (temporal_cacheKey pf dateRange' peaje'))) \<longrightarrow>
           temporal_loadData_start pf now storage dateRange' peaje' stA
             = (setError None (setLoading True stA),
                snd (temporal_getCachedData (coerce_number pf) now storage
                  (temporal_cacheKey pf dateRange' peaje')),
                [endpointUrl pf temporal_ENDPOINT (temporal_params pf dateRange' peaje')],
                AwaitFetch))
      \<and> (truthy (fst (temporal_getCachedData (coerce_number pf) now storage
              (temporal_cacheKey pf dateRange' peaje'))) \<longrightarrow>
           temporal_loadData_start pf now storage dateRange' peaje' stA
             = (setError None (setLoading True stA),
                snd (temporal_getCachedData (coerce_number pf) now storage
                  (temporal_cacheKey pf dateRange' peaje')),
                [],
                AwaitValue (fst (temporal_getCachedData (coerce_number pf) now storage
                  (temporal_cacheKey pf dateRange' peaje'))))))
   \<and> temporal_resultSettled True (Inr cachedAggregates) stA
        = stA\<lparr>loading := False, aggregates_state := cachedAggregates\<rparr>
   \<and> ((timeRange, peaje) \<noteq> (timeRange', peaje') \<longrightarrow>
      facturacion_onChange pf stD (timeRange, peaje, turno) (timeRange', peaje', turno')
        = Some (setLoading True stD,
                [endpointUrl pf facturacion_ENDPOINT (facturacion_params timeRange' peaje')],
                AwaitFetch))
   \<and> facturacion_onChange pf stD (timeRange, peaje, turno) (timeRange, peaje, turno') = None
   \<and> ((dateRange, peaje) \<noteq> (dateRange', peaje') \<longrightarrow>
      facturacion_dateRange_onChange pf stD (dateRange, peaje, turno) (dateRange', peaje', turno')
        = Some (setLoading True stD,
                [buildUrl (BASE_URL pf) (endpointUrl pf facturacion_ENDPOINT
                   (facturacion_dateRange_params pf dateRange' peaje'))],
                AwaitFetch))
   \<and> facturacion_dateRange_onChange pf stD (dateRange, peaje, turno) (dateRange, peaje, turno')
        = None
   \<and> (timeRange \<noteq> timeRange' \<longrightarrow>
      ventasTag_onChange pf stA timeRange timeRange'
        = Some (setLoading True stA,
                [endpointUrl pf ventasTag_ENDPOINT (ventasTag_params timeRange')],
                AwaitFetch))
   \<and> (dateRange \<noteq> dateRange' \<longrightarrow>
      ventasTag_dateRange_onChange pf stA dateRange dateRange'
        = Some (setLoading True stA,
                [buildUrl (BASE_URL pf) (endpointUrl pf ventasTag_ENDPOINT
                   (ventasTag_dateRange_params pf dateRange'))],
                AwaitFetch))
   \<and> ((timeRange, turno) \<noteq> (timeRange', turno') \<longrightarrow>
      recaudacion_onChange pf stA (timeRange, turno) (timeRange', turno')
        = Some (setLoading True stA,
                [endpointUrl pf recaudacion_ENDPOINT (recaudacion_params timeRange' turno')],
                AwaitFetch))
   \<and> ((timeRange, turno) \<noteq> (timeRange', turno') \<longrightarrow>
      transitos_onChange pf stT (timeRange, turno) (timeRange', turno')
        = Some (setLoading True stT,
                [endpointUrl pf transitos_ENDPOINT
                   (transitos_baseParams timeRange' turno' @ [(''nombrePeaje'', ''CONGOMA'')]),
                 endpointUrl pf transitos_ENDPOINT
                   (transitos_baseParams timeRange' turno'
                      @ [(''nombrePeaje'', ''LOS ANGELES'')])],
                AwaitFetch))"
proof (intro conjI impI allI)
  assume "(dateRange, peaje) \<noteq> (dateRange', peaje')"
  then show "estadistico_onChange pf now storage stE (dateRange, peaje) (dateRange', peaje')
      = Some (estadistico_fetchData_start pf now storage dateRange' peaje' stE)"
    by (simp add: estadistico_onChange_def onFiltersChange_changed)
next
  assume "fst (estadistico_getCachedData (coerce_number pf) now storage
      (estadistico_cacheKey pf dateRange' peaje')) = None"
  then show "estadistico_fetchData_start pf now storage dateRange' peaje' stE
      = (setLoading True stE,
         snd (estadistico_getCachedData (coerce_number pf) now storage
           (estadistico_cacheKey pf dateRange' peaje')),
         [endpointUrl pf estadistico_ENDPOINT (estadistico_params pf dateRange' peaje')],
         AwaitFetch)"
    by (rule estadistico_start_miss)
next
  fix cached
  assume "fst (estadistico_getCachedData (coerce_number pf) now storage
      (estadistico_cacheKey pf dateRange' peaje')) = Some cached"
  then show "estadistico_fetchData_start pf now storage dateRange' peaje' stE
      = (stE\<lparr>loading := False, error := None, data_state := data cached,
             aggregates_state := orNull (aggregates cached)\<rparr>,
         snd (estadistico_getCachedData (coerce_number pf) now storage
           (estadistico_cacheKey pf dateRange' peaje')),
         [], Done)"
    by (rule estadistico_start_hit)
next
  assume "(timeRange, peaje) \<noteq> (timeRange', peaje')"
  then show "cabinas_onChange pf now storage stA (timeRange, peaje) (timeRange', peaje')
      = Some (cabinas_fetchData_start pf now storage timeRange' peaje' stA)"
    by (simp add: cabinas_onChange_def onFiltersChange_changed)
next
  assume "\<not> truthy (fst (cabinas_getCachedData (coerce_number pf) now storage
      (cabinas_cacheKey timeRange' peaje')))"
  then show "cabinas_fetchData_start pf now storage timeRange' peaje' stA
      = (setLoading True stA,
         snd (cabinas_getCachedData (coerce_number pf) now storage
           (cabinas_cacheKey timeRange' peaje')),
         [endpointUrl pf cabinas_ENDPOINT (cabinas_params timeRange' peaje')],
         AwaitFetch)"
    by (rule cabinas_start_miss)
next
  assume "truthy (fst (cabinas_getCachedData (coerce_number pf) now storage
      (cabinas_cacheKey timeRange' peaje')))"
  then show "cabinas_fetchData_start pf now storage timeRange' peaje' stA
      = (stA\<lparr>loading := False, error := None,
             aggregates_state := fst (cabinas_getCachedData (coerce_number pf) now
               storage (cabinas_cacheKey timeRange' peaje'))\<rparr>,
         snd (cabinas_getCachedData (coerce_number pf) now storage
           (cabinas_cacheKey timeRange' peaje')),
         [], Done)"
    by (rule cabinas_start_hit)
next
  assume "(dateRange, peaje) \<noteq> (dateRange', peaje')"
  then show "temporal_onChange pf now storage stA (dateRange, peaje) (dateRange', peaje')
      = Some (temporal_loadData_start pf now storage dateRange' peaje' stA)"
    by (simp add: temporal_onChange_def onFiltersChange_changed)
next
  assume "\<not> truthy (fst (temporal_getCachedData (coerce_number pf) now storage
      (temporal_cacheKey pf dateRange' peaje')))"
  then show "temporal_loadData_start pf now storage dateRange' peaje' stA
      = (setError None (setLoading True stA),
         snd (temporal_getCachedData (coerce_number pf) now storage
           (temporal_cacheKey pf dateRange' peaje')),
         [endpointUrl pf temporal_ENDPOINT (temporal_params pf dateRange' peaje')],
         AwaitFetch)"
    by (rule temporal_start_miss)
next
  assume "truthy (fst (temporal_getCachedData (coerce_number pf) now storage
      (temporal_cacheKey pf dateRange' peaje')))"
  then show "temporal_loadData_start pf now storage dateRange' peaje' stA
      = (setError None (setLoading True stA),
         snd (temporal_getCachedData (coerce_number pf) now storage
           (temporal_cacheKey pf dateRange' peaje')),
         [],
         AwaitValue (fst (temporal_getCachedData (coerce_number pf) now storage
           (temporal_cacheKey pf dateRange' peaje'))))"
    by (rule temporal_start_hit)
next
  show "temporal_resultSettled True (Inr cachedAggregates) stA
      = stA\<lparr>loading := False, aggregates_state := cachedAggregates\<rparr>"
    by (simp add: temporal_resultSettled_def finallyBlock_def whenMounted_def
        setLoading_def setAggregates_def)
next
  assume "(timeRange, peaje) \<noteq> (timeRange', peaje')"
  then show "facturacion_onChange pf stD (timeRange, peaje, turno) (timeRange', peaje', turno')
      = Some (setLoading True stD,
              [endpointUrl pf facturacion_ENDPOINT (facturacion_params timeRange' peaje')],
              AwaitFetch)"
    by (simp add: facturacion_onChange_def onFiltersChange_changed facturacion_deps_def
        facturacion_fetchData_start_def)
next
  show "facturacion_onChange pf stD (timeRange, peaje, turno) (timeRange, peaje, turno') = None"
    by (simp add: facturacion_onChange_def onFiltersChange_unchanged facturacion_deps_def)
next
  assume "(dateRange, peaje) \<noteq> (dateRange', peaje')"
  then show "facturacion_dateRange_onChange pf stD (dateRange, peaje, turno)
        (dateRange', peaje', turno')
      = Some (setLoading True stD,
              [buildUrl (BASE_URL pf) (endpointUrl pf facturacion_ENDPOINT
                 (facturacion_dateRange_params pf dateRange' peaje'))],
              AwaitFetch)"
    by (simp add: facturacion_dateRange_onChange_def onFiltersChange_changed
        facturacion_dateRange_deps_def facturacion_dateRange_fetchData_start_def)
next
  show "facturacion_dateRange_onChange pf stD (dateRange, peaje, turno)
      (dateRange, peaje, turno') = None"
    by (simp add: facturacion_dateRange_onChange_def onFiltersChange_unchanged
        facturacion_dateRange_deps_def)
next
  assume "timeRange \<noteq> timeRange'"
  then show "ventasTag_onChange pf stA timeRange timeRange'
      = Some (setLoading True stA,
              [endpointUrl pf ventasTag_ENDPOINT (ventasTag_params timeRange')],
              AwaitFetch)"
    by (simp add: ventasTag_onChange_def onFiltersChange_changed ventasTag_fetchData_start_def)
next
  assume "dateRange \<noteq> dateRange'"
  then show "ventasTag_dateRange_onChange pf stA dateRange dateRange'
      = Some (setLoading True stA,
              [buildUrl (BASE_URL pf) (endpointUrl pf ventasTag_ENDPOINT
                 (ventasTag_dateRange_params pf dateRange'))],
              AwaitFetch)"
    by (simp add: ventasTag_dateRange_onChange_def onFiltersChange_changed
        ventasTag_dateRange_fetchData_start_def)
next
  assume "(timeRange, turno) \<noteq> (timeRange', turno')"
  then show "recaudacion_onChange pf stA (timeRange, turno) (timeRange', turno')
      = Some (setLoading True stA,
              [endpointUrl pf recaudacion_ENDPOINT (recaudacion_params timeRange' turno')],
              AwaitFetch)"
    by (simp add: recaudacion_onChange_def onFiltersChange_changed
        recaudacion_fetchData_start_def)
next
  assume "(timeRange, turno) \<noteq> (timeRange', turno')"
  then show "transitos_onChange pf stT (timeRange, turno) (timeRange', turno')
      = Some (setLoading True stT,
              [endpointUrl pf transitos_ENDPOINT
                 (transitos_baseParams timeRange' turno' @ [(''nombrePeaje'', ''CONGOMA'')]),
               endpointUrl pf transitos_ENDPOINT
                 (transitos_baseParams timeRange' turno'
                    @ [(''nombrePeaje'', ''LOS ANGELES'')])],
              AwaitFetch)"
    by (simp add: transitos_onChange_def onFiltersChange_changed
        transitos_fetchData_start_def transitos_urls_def Let_def)
qed

text \<open>
  Concrete changes: a new date range and station in ChartEstadistico with an empty cache,
  a new time range and station in TableFacturacion, a new shift in ChartTransito.
\<close>

theorem filter_change_refetches_witness:
  "estadistico_onChange examplePlatform 5000 Map.empty
      \<lparr>loading = False, error = None, data_state = JArr [], aggregates_state = JNull\<rparr>
      (None, ''all'')
      (Some \<lparr>from_date = Some ''2026-01-01'', to_date = Some ''2026-01-07''\<rparr>, ''1'')
     = Some (\<lparr>loading = True, error = None, data_state = JArr [], aggregates_state = JNull\<rparr>,
             Map.empty,
             [''https://api.test/r-estadistico?desde=2026-01-01&hasta=2026-01-07&idPeaje=1''],
             AwaitFetch)
   \<and> facturacion_onChange examplePlatform
      \<lparr>loading = False, error = None, data_state = JArr [], aggregates_state = ()\<rparr>
      (''7d'', ''all'', ''all'') (''30d'', ''1'', ''all'')
     = Some (\<lparr>loading = True, error = None, data_state = JArr [], aggregates_state = ()\<rparr>,
             [''https://api.test/facturacion?rango=ultimoMes&take=3000&nombrePeaje=1''],
             AwaitFetch)
   \<and> transitos_onChange examplePlatform
      \<lparr>loading = False, error = None, data_state = [], aggregates_state = ()\<rparr>
      (''7d'', ''all'') (''7d'', ''2'')
     = Some (\<lparr>loading = True, error = None, data_state = [], aggregates_state = ()\<rparr>,
             [''https://api.test/transitos?rango=ultimos7d&take=50000&turno=2&nombrePeaje=CONGOMA'',
              ''https://api.test/transitos?rango=ultimos7d&take=50000&turno=2&nombrePeaje=LOS ANGELES''],
             AwaitFetch)"
  using filter_change_refetches [where pf = examplePlatform and now = 5000
      and storage = Map.empty
      and stE = "\<lparr>loading = False, error = None, data_state = JArr [],
         aggregates_state = JNull\<rparr>"
      and stA = "\<lparr>loading = False, error = None, data_state = (),
         aggregates_state = JNull\<rparr>"
      and stD = "\<lparr>loading = False, error = None, data_state = JArr [],
         aggregates_state = ()\<rparr>"
      and stT = "\<lparr>loading = False, error = None, data_state = [],
         aggregates_state = ()\<rparr>"
      and dateRange = None
      and dateRange' = "Some \<lparr>from_date = Some ''2026-01-01'', to_date = Some ''2026-01-07''\<rparr>"
      and peaje = "''all''" and peaje' = "''1''"
      and timeRange = "''7d''" and timeRange' = "''30d''"
      and turno = "''all''" and turno' = "''all''" and cachedAggregates = JNull]
    filter_change_refetches [where pf = examplePlatform and now = 5000
      and storage = Map.empty
      and stE = "\<lparr>loading = False, error = None, data_state = JArr [],
         aggregates_state = JNull\<rparr>"
      and stA = "\<lparr>loading = False, error = None, data_state = (),
         aggregates_state = JNull\<rparr>"
      and stD = "\<lparr>loading = False, error = None, data_state = JArr [],
         aggregates_state = ()\<rparr>"
      and stT = "\<lparr>loading = False, error = None, data_state = [],
         aggregates_state = ()\<rparr>"
      and dateRange = "None :: string DateRange option"
      and dateRange' = "None :: string DateRange option"
      and peaje = "''all''" and peaje' = "''all''"
      and timeRange = "''7d''" and timeRange' = "''7d''"
      and turno = "''all''" and turno' = "''2''" and cachedAggregates = JNull]
  by (simp add: examplePlatform_def endpointUrl_def estadistico_ENDPOINT_def
      estadistico_params_def estadistico_cacheKey_def dateRangeParams_def getDateRangeKey_def
      includeData_def estadistico_getCachedData_def getItem_def setLoading_def
      facturacion_ENDPOINT_def facturacion_params_def transitos_ENDPOINT_def
      transitos_baseParams_def)

text \<open>
  The claim as the specification words it, ``any change of any filter of the panel
  issues a new GET'', fails in two ways. In TableFacturacion the shift goes from
  \<^verbatim>\<open>all\<close> to \<^verbatim>\<open>1\<close> and the effect does not run. In ChartEstadistico the station goes
  from \<^verbatim>\<open>all\<close> to \<^verbatim>\<open>1\<close> while the cache holds a payload for the new values, one second
  old: the effect runs, shows the cached payload and requests nothing.
\<close>

theorem filter_change_refetches_counterexample:
  "(''7d'', ''all'', ''all'') \<noteq> (''7d'', ''all'', ''1'')
   \<and> facturacion_onChange examplePlatform
        \<lparr>loading = False, error = None, data_state = JArr [], aggregates_state = ()\<rparr>
        (''7d'', ''all'', ''all'') (''7d'', ''all'', ''1'')
     = None
   \<and> (None :: string DateRange option, ''all'') \<noteq> (None, ''1'')
   \<and> estadistico_onChange examplePlatform 2000
        [estadistico_CACHE_PREFIX @ ''sin-fecha-1'' \<mapsto>
           JsonText (JObj [(''data'', JArr [JStr ''cached row'']), (''aggregates'', JNull),
             (''timestamp'', JNum 1000)])]
        \<lparr>loading = False, error = None, data_state = JArr [], aggregates_state = JNull\<rparr>
        (None, ''all'') (None, ''1'')
     = Some (\<lparr>loading = False, error = None, data_state = JArr [JStr ''cached row''],
               aggregates_state = JNull\<rparr>,
             [estadistico_CACHE_PREFIX @ ''sin-fecha-1'' \<mapsto>
                JsonText (JObj [(''data'', JArr [JStr ''cached row'']), (''aggregates'', JNull),
                  (''timestamp'', JNum 1000)])],
             [], Done)"
  by (simp add: facturacion_onChange_def estadistico_onChange_def onFiltersChange_def
      effectRuns_def facturacion_deps_def estadistico_fetchData_start_def
      estadistico_cacheKey_def getDateRangeKey_def estadistico_getCachedData_def getItem_def
      expired_def CACHE_EXPIRY_def examplePlatform_def finallyBlock_def whenMounted_def
      setLoading_def setError_def setData_def setAggregates_def Let_def)

end
